theory Spec2Isabelle
  imports Complex_Main
begin

section \<open>Python values\<close>

text \<open>
  The scripts are Python. Exceptions are values of \<open>py_error\<close>; an expression that may
  raise has type \<open>py_error + 'a\<close>, with \<open>Inl\<close> the exception.
\<close>

datatype py_error = IndexError | ValueError | ZeroDivisionError | OSError

text \<open>
  A Python number is an \<open>int\<close> (unbounded) or a \<open>float\<close>. The arithmetic operators follow
  Python's coercion: two ints give an int, anything else a float. The arithmetic of ints is
  exact. A float is idealised here as a rational, without the rounding of IEEE doubles;
  the arithmetic of \<open>create_icon\<close>, which is in floats for every size, is given in doubles
  in a section of its own.
\<close>

datatype pynum = PyInt int | PyFloat rat

fun val :: "pynum \<Rightarrow> rat" where
  "val (PyInt i) = of_int i"
| "val (PyFloat r) = r"

fun is_int :: "pynum \<Rightarrow> bool" where
  "is_int (PyInt i) = True"
| "is_int (PyFloat r) = False"

instantiation pynum :: "{plus, minus, times}"
begin

fun plus_pynum :: "pynum \<Rightarrow> pynum \<Rightarrow> pynum" where
  "plus_pynum (PyInt a) (PyInt b) = PyInt (a + b)"
| "plus_pynum a b = PyFloat (val a + val b)"

fun minus_pynum :: "pynum \<Rightarrow> pynum \<Rightarrow> pynum" where
  "minus_pynum (PyInt a) (PyInt b) = PyInt (a - b)"
| "minus_pynum a b = PyFloat (val a - val b)"

fun times_pynum :: "pynum \<Rightarrow> pynum \<Rightarrow> pynum" where
  "times_pynum (PyInt a) (PyInt b) = PyInt (a * b)"
| "times_pynum a b = PyFloat (val a * val b)"

instance ..

end

text \<open>True division \<open>a / b\<close>: always a float, \<open>ZeroDivisionError\<close> on a zero divisor.\<close>

definition truediv :: "pynum \<Rightarrow> pynum \<Rightarrow> py_error + pynum" where
  "truediv a b = (if val b = 0 then Inl ZeroDivisionError else Inr (PyFloat (val a / val b)))"

text \<open>The comparisons \<open>a < b\<close> and \<open>a > b\<close> of two numbers.\<close>

definition py_lt :: "pynum \<Rightarrow> pynum \<Rightarrow> bool" where
  "py_lt a b = (val a < val b)"

definition py_gt :: "pynum \<Rightarrow> pynum \<Rightarrow> bool" where
  "py_gt a b = (val a > val b)"

text \<open>
  List indexing \<open>xs[i]\<close>: a negative index counts from the end, an index outside
  \<open>-len(xs) \<dots> len(xs) - 1\<close> raises \<open>IndexError\<close>.
\<close>

definition py_index :: "'a list \<Rightarrow> int \<Rightarrow> py_error + 'a" where
  "py_index xs i =
     (if 0 \<le> i \<and> i < int (length xs) then Inr (xs ! nat i)
      else if - int (length xs) \<le> i \<and> i < 0 then Inr (xs ! nat (int (length xs) + i))
      else Inl IndexError)"

text \<open>\<open>range(n)\<close> for an int \<open>n\<close>: empty when \<open>n \<le> 0\<close>.\<close>

definition py_range :: "int \<Rightarrow> int list" where
  "py_range n = map int [0..<nat n]"

section \<open>Colours: \<open>hex_to_rgb\<close> (AppIcon/generate_icon.py)\<close>

type_synonym rgb = "int \<times> int \<times> int"

text \<open>
  A \<open>char\<close> is a code point below 256. \<open>int(s, 16)\<close> skips surrounding whitespace,
  takes an optional sign and an optional \<open>0x\<close> prefix, then digits that single
  underscores may separate; anything else is a \<open>ValueError\<close>.
\<close>

definition is_space :: "char \<Rightarrow> bool" where
  "is_space c = (let n = (of_char c :: nat)
                 in (9 \<le> n \<and> n \<le> 13) \<or> n = 32 \<or> n = 133 \<or> n = 160)"

definition digit_value :: "char \<Rightarrow> nat" where
  "digit_value c = (let n = (of_char c :: nat)
                    in if 48 \<le> n \<and> n \<le> 57 then n - 48
                       else if 97 \<le> n \<and> n \<le> 122 then n - 87
                       else if 65 \<le> n \<and> n \<le> 90 then n - 55
                       else 37)"

text \<open>
  The digit scan of base 16: \<open>acc\<close> is the value so far, \<open>prev_us\<close> tells whether the
  character before was an underscore. The scan returns the value and the rest of the
  string at the first character that is neither a digit nor an underscore.
\<close>

fun scan_digits :: "nat \<Rightarrow> bool \<Rightarrow> string \<Rightarrow> py_error + (nat \<times> string)" where
  "scan_digits acc prev_us [] = (if prev_us then Inl ValueError else Inr (acc, []))"
| "scan_digits acc prev_us (c # cs) =
     (if c = CHR ''_'' then (if prev_us then Inl ValueError else scan_digits acc True cs)
      else if digit_value c < 16 then scan_digits (acc * 16 + digit_value c) False cs
      else if prev_us then Inl ValueError
      else Inr (acc, c # cs))"

definition strip_sign :: "string \<Rightarrow> int \<times> string" where
  "strip_sign s = (case s of
       c # cs \<Rightarrow> (if c = CHR ''+'' then (1, cs) else if c = CHR ''-'' then (- 1, cs) else (1, s))
     | [] \<Rightarrow> (1, s))"

definition strip_prefix16 :: "string \<Rightarrow> string" where
  "strip_prefix16 s = (case s of
       a # b # cs \<Rightarrow>
         (if a = CHR ''0'' \<and> (b = CHR ''x'' \<or> b = CHR ''X'')
          then (case cs of u # ds \<Rightarrow> (if u = CHR ''_'' then ds else cs) | [] \<Rightarrow> cs)
          else s)
     | _ \<Rightarrow> s)"

definition int16 :: "string \<Rightarrow> py_error + int" where
  "int16 s =
     (let (sign, s1) = strip_sign (dropWhile is_space s);
          s2 = strip_prefix16 s1
      in case s2 of
           [] \<Rightarrow> Inl ValueError
         | c # cs \<Rightarrow>
             if digit_value c < 16 then
               (case scan_digits 0 False s2 of
                  Inl e \<Rightarrow> Inl e
                | Inr (n, rest) \<Rightarrow>
                    if dropWhile is_space rest = [] then Inr (sign * int n) else Inl ValueError)
             else Inl ValueError)"

text \<open>\<open>s.lstrip('#')\<close> removes every leading \<open>#\<close>; \<open>s[i:i+2]\<close> is a slice.\<close>

definition lstrip_hash :: "string \<Rightarrow> string" where
  "lstrip_hash s = dropWhile (\<lambda>c. c = CHR ''#'') s"

definition slice2 :: "string \<Rightarrow> nat \<Rightarrow> string" where
  "slice2 s i = take 2 (drop i s)"

definition hex_to_rgb :: "string \<Rightarrow> py_error + rgb" where
  "hex_to_rgb hex_color =
     (let h = lstrip_hash hex_color
      in case int16 (slice2 h 0) of
           Inl e \<Rightarrow> Inl e
         | Inr r \<Rightarrow>
             (case int16 (slice2 h 2) of
                Inl e \<Rightarrow> Inl e
              | Inr g \<Rightarrow>
                  (case int16 (slice2 h 4) of
                     Inl e \<Rightarrow> Inl e
                   | Inr b \<Rightarrow> Inr (r, g, b))))"

section \<open>Drawing state\<close>

text \<open>
  The drawing library is external: an image is the sequence of the calls made on it,
  starting with its creation, and the calls are recorded, not rasterised. The state of a
  script is the image being drawn and the state of the process-wide random source.
\<close>

datatype draw_op =
    NewImage int int rgb
  | RoundedRectangle (box: "pynum \<times> pynum \<times> pynum \<times> pynum") (radius: pynum) (fill: rgb)

record 'g world =
  canvas :: "draw_op list"
  gen :: 'g

definition rounded_rectangle ::
    "pynum \<times> pynum \<times> pynum \<times> pynum \<Rightarrow> pynum \<Rightarrow> rgb \<Rightarrow> 'g world \<Rightarrow> 'g world" where
  "rounded_rectangle b r f w = w\<lparr>canvas := canvas w @ [RoundedRectangle b r f]\<rparr>"

text \<open>
  A \<open>for\<close> loop over a list: the body returns \<open>Some e\<close> when it raises \<open>e\<close>, and the
  loop stops there with the state reached.
\<close>

fun for_each :: "'i list \<Rightarrow> ('i \<Rightarrow> 's \<Rightarrow> py_error option \<times> 's) \<Rightarrow> 's \<Rightarrow> py_error option \<times> 's" where
  "for_each [] body s = (None, s)"
| "for_each (i # is) body s =
     (case body i s of
        (Some e, s') \<Rightarrow> (Some e, s')
      | (None, s') \<Rightarrow> for_each is body s')"

section \<open>The random source\<close>

text \<open>
  The generator of Python's \<open>random\<close> module is external: its two primitives are
  parameters. \<open>rnd_random\<close> is \<open>random.random()\<close>; \<open>rnd_below n\<close> is the index that
  \<open>random.choice\<close> draws for a sequence of length \<open>n\<close>.
\<close>

record 'g rng =
  rnd_random :: "'g \<Rightarrow> rat \<times> 'g"
  rnd_below :: "nat \<Rightarrow> 'g \<Rightarrow> nat \<times> 'g"

definition random_random :: "'g rng \<Rightarrow> 'g world \<Rightarrow> pynum \<times> 'g world" where
  "random_random R w = (let (r, g') = rnd_random R (gen w) in (PyFloat r, w\<lparr>gen := g'\<rparr>))"

text \<open>\<open>random.choice(seq)\<close>: \<open>IndexError\<close> on an empty sequence, else \<open>seq[i]\<close>.\<close>

definition random_choice :: "'g rng \<Rightarrow> 'a list \<Rightarrow> 'g world \<Rightarrow> (py_error + 'a) \<times> 'g world" where
  "random_choice R seq w =
     (if seq = [] then (Inl IndexError, w)
      else (let (i, g') = rnd_below R (length seq) (gen w)
            in (py_index seq (int i), w\<lparr>gen := g'\<rparr>)))"

section \<open>Palette constants\<close>

text \<open>The Marketing scripts write their colours as tuples.\<close>

definition BACKGROUND :: rgb where "BACKGROUND = (13, 17, 23)"
definition CARD_BG :: rgb where "CARD_BG = (22, 27, 34)"
definition GREEN_DARK :: rgb where "GREEN_DARK = (14, 68, 41)"
definition GREEN_MED :: rgb where "GREEN_MED = (0, 109, 50)"
definition GREEN_LIGHT :: rgb where "GREEN_LIGHT = (38, 166, 65)"
definition GREEN_BRIGHT :: rgb where "GREEN_BRIGHT = (57, 211, 83)"

text \<open>
  AppIcon/generate_icon.py computes its colours with \<open>hex_to_rgb\<close> when the module is
  loaded: \<open>BACKGROUND\<close> first, then the four entries of \<open>GRID_COLORS\<close>. The first
  exception ends the loading.
\<close>

fun collect :: "(py_error + 'a) list \<Rightarrow> py_error + 'a list" where
  "collect [] = Inr []"
| "collect (x # xs) =
     (case x of
        Inl e \<Rightarrow> Inl e
      | Inr v \<Rightarrow> (case collect xs of Inl e \<Rightarrow> Inl e | Inr vs \<Rightarrow> Inr (v # vs)))"

definition icon_module :: "py_error + (rgb \<times> rgb list)" where
  "icon_module =
     (case hex_to_rgb ''#0D1117'' of
        Inl e \<Rightarrow> Inl e
      | Inr bg \<Rightarrow>
          (case collect (map hex_to_rgb [''#0E4429'', ''#006D32'', ''#26A641'', ''#39D353'']) of
             Inl e \<Rightarrow> Inl e
           | Inr colors \<Rightarrow> Inr (bg, colors)))"

section \<open>The deterministic grids\<close>

subsection \<open>\<open>draw_grid_icon\<close> (Marketing/Logos/generate_logos.py, generate_lifeblock_logos.py)\<close>

definition icon_levels :: "rgb list" where
  "icon_levels = [GREEN_DARK, GREEN_MED, GREEN_LIGHT, GREEN_BRIGHT]"

definition icon_pattern :: "int list list" where
  "icon_pattern = [[0, 1, 2], [1, 2, 3], [2, 3, 3]]"

text \<open>
  The body of \<open>draw_grid_icon\<close> with its two local tables \<open>levels\<close> and \<open>pattern\<close> as
  parameters; \<open>draw_grid_icon\<close> itself fixes them. Both logo scripts define the same
  function.
\<close>

definition draw_grid_icon_on ::
    "rgb list \<Rightarrow> int list list \<Rightarrow> pynum \<Rightarrow> pynum \<Rightarrow> pynum \<Rightarrow> pynum \<Rightarrow> 'g world
      \<Rightarrow> py_error option \<times> 'g world" where
  "draw_grid_icon_on levels pattern x y cell_size gap =
     for_each (py_range 3) (\<lambda>row.
       for_each (py_range 3) (\<lambda>col w.
         case py_index pattern row of
           Inl e \<Rightarrow> (Some e, w)
         | Inr pattern_row \<Rightarrow>
             (case py_index pattern_row col of
                Inl e \<Rightarrow> (Some e, w)
              | Inr level \<Rightarrow>
                  (case py_index levels level of
                     Inl e \<Rightarrow> (Some e, w)
                   | Inr color \<Rightarrow>
                       (let cx = x + PyInt col * (cell_size + gap);
                            cy = y + PyInt row * (cell_size + gap)
                        in (None, rounded_rectangle (cx, cy, cx + cell_size, cy + cell_size)
                                    (cell_size * PyFloat (2 / 10)) color w))))))"

definition draw_grid_icon ::
    "pynum \<Rightarrow> pynum \<Rightarrow> pynum \<Rightarrow> pynum \<Rightarrow> 'g world \<Rightarrow> py_error option \<times> 'g world" where
  "draw_grid_icon = draw_grid_icon_on icon_levels icon_pattern"

subsection \<open>The icon of \<open>create_feature_graphic\<close> (Marketing/generate_banners.py)\<close>

text \<open>
  The 3x3 loop that \<open>create_feature_graphic\<close> runs inline, with its local constants
  \<open>icon_x, icon_y = 80, 150\<close>, \<open>icon_size = 50\<close>, \<open>icon_gap = 10\<close> and the literal
  radius 10.
\<close>

definition feature_graphic_icon :: "'g world \<Rightarrow> py_error option \<times> 'g world" where
  "feature_graphic_icon =
     (let icon_x = PyInt 80; icon_y = PyInt 150; icon_size = PyInt 50; icon_gap = PyInt 10;
          levels = [GREEN_DARK, GREEN_MED, GREEN_LIGHT, GREEN_BRIGHT];
          pattern = [[0, 1, 2], [1, 2, 3], [2, 3, 3]]
      in for_each (py_range 3) (\<lambda>row.
           for_each (py_range 3) (\<lambda>col w.
             case py_index pattern row of
               Inl e \<Rightarrow> (Some e, w)
             | Inr pattern_row \<Rightarrow>
                 (case py_index pattern_row col of
                    Inl e \<Rightarrow> (Some e, w)
                  | Inr level \<Rightarrow>
                      (case py_index levels level of
                         Inl e \<Rightarrow> (Some e, w)
                       | Inr color \<Rightarrow>
                           (let x = icon_x + PyInt col * (icon_size + icon_gap);
                                y = icon_y + PyInt row * (icon_size + icon_gap)
                            in (None, rounded_rectangle (x, y, x + icon_size, y + icon_size)
                                        (PyInt 10) color w)))))))"

subsection \<open>\<open>create_icon\<close> (AppIcon/generate_icon.py)\<close>

definition grid_levels :: "int list list" where
  "grid_levels = [[1, 2, 3], [2, 3, 4], [3, 4, 4]]"

text \<open>
  The body of \<open>create_icon\<close>, with the module's \<open>BACKGROUND\<close> and \<open>GRID_COLORS\<close> and the
  local table \<open>grid_levels\<close> as parameters. \<open>Image.new\<close> starts a new image. The state
  returned with an exception is the one reached when it was raised.
\<close>

definition create_icon_on ::
    "rgb \<Rightarrow> rgb list \<Rightarrow> int list list \<Rightarrow> int \<Rightarrow> 'g world \<Rightarrow> py_error option \<times> 'g world" where
  "create_icon_on background grid_colors levels size' w0 =
     (let w = w0\<lparr>canvas := [NewImage size' size' background]\<rparr>;
          padding = PyInt size' * PyFloat (15 / 100);
          grid_size = PyInt size' - (padding * PyInt 2)
      in case truediv grid_size (PyInt 3) of
           Inl e \<Rightarrow> (Some e, w)
         | Inr cell_size \<Rightarrow>
             (let gap = cell_size * PyFloat (12 / 100);
                  actual_cell = cell_size - gap;
                  corner_radius = actual_cell * PyFloat (2 / 10)
              in for_each (py_range 3) (\<lambda>row.
                   for_each (py_range 3) (\<lambda>col w.
                     case py_index levels row of
                       Inl e \<Rightarrow> (Some e, w)
                     | Inr levels_row \<Rightarrow>
                         (case py_index levels_row col of
                            Inl e \<Rightarrow> (Some e, w)
                          | Inr level \<Rightarrow>
                              (case py_index grid_colors (level - 1) of
                                 Inl e \<Rightarrow> (Some e, w)
                               | Inr color \<Rightarrow>
                                   (case truediv gap (PyInt 2) of
                                      Inl e \<Rightarrow> (Some e, w)
                                    | Inr half_gap \<Rightarrow>
                                        (let x = padding + (PyInt col * cell_size) + half_gap;
                                             y = padding + (PyInt row * cell_size) + half_gap
                                         in (None, rounded_rectangle
                                                     (x, y, x + actual_cell, y + actual_cell)
                                                     corner_radius color w))))))) w))"

definition create_icon :: "int \<Rightarrow> 'g world \<Rightarrow> py_error option \<times> 'g world" where
  "create_icon size' w =
     (case icon_module of
        Inl e \<Rightarrow> (Some e, w)
      | Inr (background, grid_colors) \<Rightarrow> create_icon_on background grid_colors grid_levels size' w)"

subsection \<open>The arithmetic of \<open>create_icon\<close> in doubles\<close>

text \<open>
  A Python float is an IEEE 754 double. A double is written here as the rational it is;
  every literal, every conversion of an int and every one of \<open>+\<close>, \<open>-\<close>, \<open>*\<close>, \<open>/\<close> gives
  the double nearest to the exact value, a tie going to the even mantissa. The range of
  the exponent is not modelled: overflow and subnormal numbers do not occur in the
  computations below.
\<close>

text \<open>The number of binary digits of a positive integer.\<close>

function bits :: "int \<Rightarrow> int" where
  "bits n = (if n \<le> 0 then 0 else 1 + bits (n div 2))"
  by pat_completeness auto
termination
  by (relation "measure nat") auto

definition pow2 :: "int \<Rightarrow> rat" where
  "pow2 e = (if 0 \<le> e then 2 ^ nat e else 1 / 2 ^ nat (- e))"

text \<open>For \<open>0 < x\<close>, the exponent \<open>e\<close> with \<open>2 ^ e \<le> x < 2 ^ (e + 1)\<close>.\<close>

definition exponent :: "rat \<Rightarrow> int" where
  "exponent x =
     (let (p, q) = quotient_of x;
          d = bits p - bits q
      in if pow2 d \<le> x then d else d - 1)"

definition round_half_even :: "rat \<Rightarrow> int" where
  "round_half_even x =
     (let f = \<lfloor>x\<rfloor>; d = x - of_int f
      in if d < 1 / 2 then f
         else if 1 / 2 < d then f + 1
         else if even f then f else f + 1)"

definition nearest_double :: "rat \<Rightarrow> rat" where
  "nearest_double x =
     (if x = 0 then 0
      else (let a = \<bar>x\<bar>; u = pow2 (exponent a - 52)
            in sgn x * of_int (round_half_even (a / u)) * u))"

definition int64 :: "int \<Rightarrow> rat" where "int64 n = nearest_double (of_int n)"
definition lit64 :: "rat \<Rightarrow> rat" where "lit64 x = nearest_double x"
definition add64 :: "rat \<Rightarrow> rat \<Rightarrow> rat" where "add64 a b = nearest_double (a + b)"
definition sub64 :: "rat \<Rightarrow> rat \<Rightarrow> rat" where "sub64 a b = nearest_double (a - b)"
definition mul64 :: "rat \<Rightarrow> rat \<Rightarrow> rat" where "mul64 a b = nearest_double (a * b)"
definition div64 :: "rat \<Rightarrow> rat \<Rightarrow> rat" where "div64 a b = nearest_double (a / b)"

text \<open>
  The values that \<open>create_icon\<close> computes before its loops, in doubles: \<open>padding\<close>,
  \<open>cell_size\<close>, \<open>gap\<close>, \<open>actual_cell\<close> and \<open>corner_radius\<close>. The divisors 3 and 2 are
  literals, so no division raises.
\<close>

definition icon_padding64 :: "int \<Rightarrow> rat" where
  "icon_padding64 size' = mul64 (int64 size') (lit64 (15 / 100))"

definition icon_cell_size64 :: "int \<Rightarrow> rat" where
  "icon_cell_size64 size' =
     div64 (sub64 (int64 size') (mul64 (icon_padding64 size') (int64 2))) (int64 3)"

definition icon_gap64 :: "int \<Rightarrow> rat" where
  "icon_gap64 size' = mul64 (icon_cell_size64 size') (lit64 (12 / 100))"

definition icon_actual_cell64 :: "int \<Rightarrow> rat" where
  "icon_actual_cell64 size' = sub64 (icon_cell_size64 size') (icon_gap64 size')"


text \<open>
  The coordinate \<open>padding + (col * cell_size) + (gap / 2)\<close> of the loop body, in doubles;
  \<open>y\<close> is the same expression in \<open>row\<close>.
\<close>

definition icon_x64 :: "int \<Rightarrow> int \<Rightarrow> rat" where
  "icon_x64 size' col =
     add64 (add64 (icon_padding64 size') (mul64 (int64 col) (icon_cell_size64 size')))
           (div64 (icon_gap64 size') (int64 2))"

section \<open>The randomised grids\<close>

subsection \<open>\<open>draw_mini_grid\<close> (Marketing/generate_banners.py)\<close>

definition mini_levels :: "rgb list" where
  "mini_levels = [CARD_BG, GREEN_DARK, GREEN_MED, GREEN_LIGHT, GREEN_BRIGHT]"

text \<open>
  The colour of one cell of \<open>draw_mini_grid\<close>: \<open>weight = col / cols\<close>, one draw of
  \<open>random.random()\<close>, then \<open>random.choice(levels[1:])\<close> or \<open>levels[0]\<close>.
\<close>

definition mini_color :: "'g rng \<Rightarrow> rgb list \<Rightarrow> int \<Rightarrow> int \<Rightarrow> 'g world \<Rightarrow> (py_error + rgb) \<times> 'g world" where
  "mini_color R levels col cols w =
     (case truediv (PyInt col) (PyInt cols) of
        Inl e \<Rightarrow> (Inl e, w)
      | Inr weight \<Rightarrow>
          (let (r, w1) = random_random R w
           in if py_lt r (PyFloat (2 / 10) + (weight * PyFloat (6 / 10)))
              then random_choice R (drop 1 levels) w1
              else (py_index levels 0, w1)))"

definition draw_mini_grid ::
    "'g rng \<Rightarrow> pynum \<Rightarrow> pynum \<Rightarrow> pynum \<Rightarrow> pynum \<Rightarrow> int \<Rightarrow> int \<Rightarrow> 'g world
      \<Rightarrow> py_error option \<times> 'g world" where
  "draw_mini_grid R x y cell_size gap cols rows =
     for_each (py_range rows) (\<lambda>row.
       for_each (py_range cols) (\<lambda>col w.
         case mini_color R mini_levels col cols w of
           (Inl e, w') \<Rightarrow> (Some e, w')
         | (Inr color, w') \<Rightarrow>
             (let cx = x + PyInt col * (cell_size + gap);
                  cy = y + PyInt row * (cell_size + gap)
              in (None, rounded_rectangle (cx, cy, cx + cell_size, cy + cell_size)
                          (PyInt 4) color w'))))"

subsection \<open>\<open>draw_contribution_grid\<close> (Marketing/Screenshots/generate_screenshots.py)\<close>

definition contribution_levels :: "rgb list" where
  "contribution_levels = [GREEN_DARK, GREEN_MED, GREEN_LIGHT, GREEN_BRIGHT]"

text \<open>
  The colour of one cell of \<open>draw_contribution_grid\<close>: \<open>weight = (week / weeks) * 0.7\<close>,
  one draw of \<open>random.random()\<close>, then \<open>random.choice(levels[1:])\<close>, or a second draw that
  decides between \<open>levels[0]\<close> and \<open>CARD_BG\<close>.
\<close>

definition contribution_color ::
    "'g rng \<Rightarrow> rgb list \<Rightarrow> int \<Rightarrow> int \<Rightarrow> 'g world \<Rightarrow> (py_error + rgb) \<times> 'g world" where
  "contribution_color R levels week weeks w =
     (case truediv (PyInt week) (PyInt weeks) of
        Inl e \<Rightarrow> (Inl e, w)
      | Inr q \<Rightarrow>
          (let weight = q * PyFloat (7 / 10);
               (r, w1) = random_random R w
           in if py_lt r (PyFloat (3 / 10) + weight)
              then random_choice R (drop 1 levels) w1
              else (let (r2, w2) = random_random R w1
                    in if py_gt r2 (PyFloat (5 / 10)) then (py_index levels 0, w2)
                       else (Inr CARD_BG, w2))))"

definition draw_contribution_grid ::
    "'g rng \<Rightarrow> pynum \<Rightarrow> pynum \<Rightarrow> pynum \<Rightarrow> pynum \<Rightarrow> int \<Rightarrow> 'g world
      \<Rightarrow> py_error option \<times> 'g world" where
  "draw_contribution_grid R x y cell_size gap weeks =
     for_each (py_range weeks) (\<lambda>week.
       for_each (py_range 7) (\<lambda>day w.
         case contribution_color R contribution_levels week weeks w of
           (Inl e, w') \<Rightarrow> (Some e, w')
         | (Inr color, w') \<Rightarrow>
             (let cx = x + PyInt week * (cell_size + gap);
                  cy = y + PyInt day * (cell_size + gap)
              in (None, rounded_rectangle (cx, cy, cx + cell_size, cy + cell_size)
                          (PyInt 6) color w'))))"

subsection \<open>The legend of \<open>create_screenshot_3\<close> (Marketing/Screenshots/generate_screenshots.py)\<close>

text \<open>
  The screenshot "Your Year Visualized" draws a legend of the activity levels: five
  colours, each with its label.
\<close>

definition legend_levels :: "rgb list" where
  "legend_levels = [CARD_BG, GREEN_DARK, GREEN_MED, GREEN_LIGHT, GREEN_BRIGHT]"

definition legend_labels :: "string list" where
  "legend_labels = [''None'', ''Light'', ''Medium'', ''High'', ''Max'']"

definition legend :: "(rgb \<times> string) list" where
  "legend = zip legend_levels legend_labels"

section \<open>Fonts: \<open>get_font\<close>\<close>

text \<open>
  The font loader is external. \<open>truetype\<close> is \<open>ImageFont.truetype(path, size)\<close>, which
  raises when the file cannot be loaded; \<open>load_default\<close> is \<open>ImageFont.load_default()\<close>,
  the font built into the library. The paths given to \<open>truetype\<close> are logged in the order
  of the calls.
\<close>

record 'f font_env =
  truetype :: "string \<Rightarrow> pynum \<Rightarrow> py_error + 'f"
  load_default :: 'f

definition truetype_call ::
    "'f font_env \<Rightarrow> string \<Rightarrow> pynum \<Rightarrow> string list \<Rightarrow> (py_error + 'f) \<times> string list" where
  "truetype_call E path size' tried = (truetype E path size', tried @ [path])"

definition SFNS :: string where "SFNS = ''/System/Library/Fonts/SFNS.ttf''"
definition Helvetica :: string where "Helvetica = ''/System/Library/Fonts/Helvetica.ttc''"

text \<open>
  \<open>get_font\<close> of generate_banners.py, generate_logos.py and generate_lifeblock_logos.py:
  one \<open>try\<close> with a bare \<open>except\<close>.
\<close>

definition get_font_banners ::
    "'f font_env \<Rightarrow> pynum \<Rightarrow> string list \<Rightarrow> (py_error + 'f) \<times> string list" where
  "get_font_banners E size' tried =
     (case truetype_call E Helvetica size' tried of
        (Inr f, tried1) \<Rightarrow> (Inr f, tried1)
      | (Inl e, tried1) \<Rightarrow> (Inr (load_default E), tried1))"

text \<open>
  \<open>get_font\<close> of generate_screenshots.py: a \<open>try\<close> whose handler holds a second \<open>try\<close>.
  Both branches of \<open>if bold\<close> load the same file.
\<close>

definition get_font_screenshots ::
    "'f font_env \<Rightarrow> pynum \<Rightarrow> bool \<Rightarrow> string list \<Rightarrow> (py_error + 'f) \<times> string list" where
  "get_font_screenshots E size' bold tried =
     (case (if bold then truetype_call E SFNS size' tried
            else truetype_call E SFNS size' tried) of
        (Inr f, tried1) \<Rightarrow> (Inr f, tried1)
      | (Inl e, tried1) \<Rightarrow>
          (case truetype_call E Helvetica size' tried1 of
             (Inr f, tried2) \<Rightarrow> (Inr f, tried2)
           | (Inl e2, tried2) \<Rightarrow> (Inr (load_default E), tried2)))"

section \<open>Notions of the specification\<close>

text \<open>
  The definitions of this section are not code of the scripts: they state what the
  properties below compare the code with.
\<close>

text \<open>A hexadecimal digit, its value, and the byte that two digits write.\<close>

definition hex_digits :: string where
  "hex_digits = ''0123456789abcdefABCDEF''"

definition is_hex_digit :: "char \<Rightarrow> bool" where
  "is_hex_digit c = (c \<in> set hex_digits)"

definition hex_digit :: "char \<Rightarrow> int" where
  "hex_digit c =
     (if c \<in> set ''0123456789abcdef''
      then int (length (takeWhile (\<lambda>d. d \<noteq> c) ''0123456789abcdef''))
      else int (length (takeWhile (\<lambda>d. d \<noteq> c) ''0123456789ABCDEF'')))"

definition hex_byte :: "char \<Rightarrow> char \<Rightarrow> int" where
  "hex_byte hi lo = 16 * hex_digit hi + hex_digit lo"

text \<open>
  A fallback chain over a list of font files: the first file that loads, else the
  default font. It never raises.
\<close>

fun font_chain ::
    "'f font_env \<Rightarrow> string list \<Rightarrow> pynum \<Rightarrow> string list \<Rightarrow> (py_error + 'f) \<times> string list" where
  "font_chain E [] size' tried = (Inr (load_default E), tried)"
| "font_chain E (p # ps) size' tried =
     (case truetype E p size' of
        Inr f \<Rightarrow> (Inr f, tried @ [p])
      | Inl e \<Rightarrow> font_chain E ps size' (tried @ [p]))"

text \<open>The activity level that the legend of the screenshots gives a colour.\<close>

definition activity_label :: "rgb \<Rightarrow> string option" where
  "activity_label c = map_of legend c"

text \<open>The brightness of a colour, as the integer luma \<open>299 R + 587 G + 114 B\<close>.\<close>

fun luma :: "rgb \<Rightarrow> int" where
  "luma (r, g, b) = 299 * r + 587 * g + 114 * b"

text \<open>The four corners of a drawn cell, as values.\<close>

fun left :: "draw_op \<Rightarrow> rat" where
  "left (RoundedRectangle (x0, y0, x1, y1) r f) = val x0"
| "left (NewImage w h c) = 0"

fun top :: "draw_op \<Rightarrow> rat" where
  "top (RoundedRectangle (x0, y0, x1, y1) r f) = val y0"
| "top (NewImage w h c) = 0"

fun right :: "draw_op \<Rightarrow> rat" where
  "right (RoundedRectangle (x0, y0, x1, y1) r f) = val x1"
| "right (NewImage w h c) = 0"

fun bottom :: "draw_op \<Rightarrow> rat" where
  "bottom (RoundedRectangle (x0, y0, x1, y1) r f) = val y1"
| "bottom (NewImage w h c) = 0"

text \<open>
  The contract of the grid routine: the top-left corner of the cell at \<open>(row, col)\<close> is
  \<open>origin + index * (cellSize + gap)\<close>, and the cell is a rounded rectangle of side
  \<open>cellSize\<close> there.
\<close>

definition cell_origin :: "pynum \<Rightarrow> pynum \<Rightarrow> pynum \<Rightarrow> pynum \<Rightarrow> int \<Rightarrow> int \<Rightarrow> pynum \<times> pynum" where
  "cell_origin originX originY cellSize gap row col =
     (originX + PyInt col * (cellSize + gap), originY + PyInt row * (cellSize + gap))"

definition cell_rect ::
    "pynum \<Rightarrow> pynum \<Rightarrow> pynum \<Rightarrow> pynum \<Rightarrow> pynum \<Rightarrow> rgb \<Rightarrow> int \<times> int \<Rightarrow> draw_op" where
  "cell_rect originX originY cellSize gap r color rc =
     (let (x, y) = cell_origin originX originY cellSize gap (fst rc) (snd rc)
      in RoundedRectangle (x, y, x + cellSize, y + cellSize) r color)"

fun top_left :: "draw_op \<Rightarrow> pynum \<times> pynum" where
  "top_left (RoundedRectangle (x0, y0, x1, y1) r f) = (x0, y0)"
| "top_left (NewImage w h c) = (PyInt 0, PyInt 0)"

text \<open>The indices that Python accepts for a list: \<open>-len(xs) \<dots> len(xs) - 1\<close>.\<close>

definition in_range :: "'a list \<Rightarrow> int \<Rightarrow> bool" where
  "in_range xs i = (- int (length xs) \<le> i \<and> i < int (length xs))"

text \<open>
  What the library promises of the index that \<open>random.choice\<close> draws: it is below the
  length of the sequence.
\<close>

definition below_ok :: "'g rng \<Rightarrow> bool" where
  "below_ok R = (\<forall>n g. 0 < n \<longrightarrow> fst (rnd_below R n g) < n)"


text \<open>
  The formula of the contract on \<open>create_icon\<close>, in doubles. \<open>contract_x64\<close> reads it on
  the layout of the drawn cells: the origin \<open>padding + gap / 2\<close>, the side \<open>actual_cell\<close>
  and the gap. \<open>named_x64\<close> reads it on the variables that \<open>create_icon\<close> itself calls
  \<open>padding\<close>, \<open>cell_size\<close> and \<open>gap\<close>.
\<close>

definition contract_x64 :: "int \<Rightarrow> int \<Rightarrow> rat" where
  "contract_x64 size' col =
     add64 (add64 (icon_padding64 size') (div64 (icon_gap64 size') (int64 2)))
           (mul64 (int64 col) (add64 (icon_actual_cell64 size') (icon_gap64 size')))"

definition named_x64 :: "int \<Rightarrow> int \<Rightarrow> rat" where
  "named_x64 size' col =
     add64 (icon_padding64 size')
           (mul64 (int64 col) (add64 (icon_cell_size64 size') (icon_gap64 size')))"

text \<open>The palette that AppIcon/generate_icon.py holds once it is loaded.\<close>

definition GRID_COLORS :: "rgb list" where
  "GRID_COLORS = (case icon_module of Inr (background, grid_colors) \<Rightarrow> grid_colors | Inl e \<Rightarrow> [])"

text \<open>The calls a routine added to the image it was given.\<close>

definition added :: "'g world \<Rightarrow> py_error option \<times> 'g world \<Rightarrow> draw_op list" where
  "added w res = drop (length (canvas w)) (canvas (snd res))"

section \<open>Fixtures\<close>

text \<open>
  A random source that replays a tape: the outcomes of \<open>random.random()\<close> and the raw
  draws of \<open>random.choice\<close>, reduced modulo the length of the sequence. An exhausted tape
  gives 0.
\<close>

definition tape_rng :: "(rat list \<times> nat list) rng" where
  "tape_rng =
     \<lparr>rnd_random = (\<lambda>(fs, ks). case fs of [] \<Rightarrow> (0, (fs, ks)) | f # fs' \<Rightarrow> (f, (fs', ks))),
      rnd_below = (\<lambda>n (fs, ks). case ks of [] \<Rightarrow> (0, (fs, ks)) | k # ks' \<Rightarrow> (k mod n, (fs, ks')))\<rparr>"

definition blank :: "'g \<Rightarrow> 'g world" where
  "blank g = \<lparr>canvas = [], gen = g\<rparr>"

text \<open>An empty image with an exhausted tape.\<close>

definition start :: "(rat list \<times> nat list) world" where
  "start = blank ([], [])"

text \<open>An empty image with the random source in another state.\<close>

definition other_start :: "(rat list \<times> nat list) world" where
  "other_start = blank ([1 / 2], [3])"

text \<open>
  Font environments: no font file loads; only the file \<open>Helvetica\<close> loads; every file
  loads.
\<close>

definition all_fonts :: "string font_env" where
  "all_fonts = \<lparr>truetype = (\<lambda>path size'. Inr path), load_default = ''default''\<rparr>"

definition no_fonts :: "string font_env" where
  "no_fonts = \<lparr>truetype = (\<lambda>path size'. Inl OSError), load_default = ''default''\<rparr>"

definition only_helvetica :: "string font_env" where
  "only_helvetica =
     \<lparr>truetype = (\<lambda>path size'. if path = Helvetica then Inr ''Helvetica'' else Inl OSError),
      load_default = ''default''\<rparr>"

section \<open>\<open>hex_to_rgb\<close> on six hexadecimal digits\<close>

definition plain_digit :: "char \<Rightarrow> bool" where
  "plain_digit c = (digit_value c < 16 \<and> int (digit_value c) = hex_digit c
     \<and> \<not> is_space c \<and> c \<noteq> CHR ''_'' \<and> c \<noteq> CHR ''+'' \<and> c \<noteq> CHR ''-''
     \<and> c \<noteq> CHR ''#'' \<and> c \<noteq> CHR ''x'' \<and> c \<noteq> CHR ''X''
     \<and> 0 \<le> hex_digit c \<and> hex_digit c \<le> 15)"

lemma all_plain: "list_all plain_digit hex_digits"
  by code_simp

lemma hex_digit_facts:
  assumes "is_hex_digit c"
  shows "digit_value c < 16" and "int (digit_value c) = hex_digit c"
    and "\<not> is_space c" and "c \<noteq> CHR ''_''" and "c \<noteq> CHR ''+''" and "c \<noteq> CHR ''-''"
    and "c \<noteq> CHR ''#''" and "c \<noteq> CHR ''x''" and "c \<noteq> CHR ''X''"
    and "0 \<le> hex_digit c" and "hex_digit c \<le> 15"
proof -
  have "plain_digit c"
    using assms all_plain unfolding is_hex_digit_def list_all_iff by blast
  then show "digit_value c < 16" and "int (digit_value c) = hex_digit c"
    and "\<not> is_space c" and "c \<noteq> CHR ''_''" and "c \<noteq> CHR ''+''" and "c \<noteq> CHR ''-''"
    and "c \<noteq> CHR ''#''" and "c \<noteq> CHR ''x''" and "c \<noteq> CHR ''X''"
    and "0 \<le> hex_digit c" and "hex_digit c \<le> 15"
    unfolding plain_digit_def by blast+
qed

lemma int16_pair:
  assumes "is_hex_digit a" and "is_hex_digit b"
  shows "int16 [a, b] = Inr (hex_byte a b)"
proof -
  note fa = hex_digit_facts [OF assms(1)] and fb = hex_digit_facts [OF assms(2)]
  have "scan_digits 0 False [a, b] = Inr (digit_value a * 16 + digit_value b, [])"
    using fa(1,4) fb(1,4) by simp
  moreover have "strip_prefix16 [a, b] = [a, b]"
    using fb(8,9) by (simp add: strip_prefix16_def)
  moreover have "strip_sign (dropWhile is_space [a, b]) = (1, [a, b])"
    using fa(3,5,6) by (simp add: strip_sign_def)
  ultimately show ?thesis
    using fa(1,2) fb(2) by (simp add: int16_def hex_byte_def)
qed

lemma hex_byte_range:
  assumes "is_hex_digit a" and "is_hex_digit b"
  shows "0 \<le> hex_byte a b \<and> hex_byte a b \<le> 255"
  using hex_digit_facts(10,11) [OF assms(1)] hex_digit_facts(10,11) [OF assms(2)]
  by (simp add: hex_byte_def)

text \<open>
  C9. For a string \<open>s\<close> of exactly six hexadecimal digits, \<open>hex_to_rgb\<close> returns the three
  bytes written by the digit pairs at offsets 0, 2 and 4, each between 0 and 255, and a
  leading \<open>#\<close> changes nothing; \<open>hex_to_rgb("#39D353")\<close> is \<open>(57, 211, 83)\<close>.
\<close>

theorem hex_to_rgb_six_digits:
  assumes "length s = 6" and "list_all is_hex_digit s"
  shows "hex_to_rgb s
           = Inr (hex_byte (s ! 0) (s ! 1), hex_byte (s ! 2) (s ! 3), hex_byte (s ! 4) (s ! 5))
       \<and> hex_to_rgb (CHR ''#'' # s) = hex_to_rgb s
       \<and> 0 \<le> hex_byte (s ! 0) (s ! 1) \<and> hex_byte (s ! 0) (s ! 1) \<le> 255
       \<and> 0 \<le> hex_byte (s ! 2) (s ! 3) \<and> hex_byte (s ! 2) (s ! 3) \<le> 255
       \<and> 0 \<le> hex_byte (s ! 4) (s ! 5) \<and> hex_byte (s ! 4) (s ! 5) \<le> 255
       \<and> hex_to_rgb ''#39D353'' = Inr (57, 211, 83)"
proof -
  from assms(1) obtain a b c d e f where s: "s = [a, b, c, d, e, f]"
    by (auto simp: length_Suc_conv eval_nat_numeral)
  from assms(2) have h: "is_hex_digit a" "is_hex_digit b" "is_hex_digit c"
    "is_hex_digit d" "is_hex_digit e" "is_hex_digit f"
    by (simp_all add: s)
  have strip: "lstrip_hash s = s" "lstrip_hash (CHR ''#'' # s) = s"
    using hex_digit_facts(7) [OF h(1)] by (simp_all add: lstrip_hash_def s)
  have slices: "slice2 s 0 = [a, b]" "slice2 s 2 = [c, d]" "slice2 s 4 = [e, f]"
    by (simp_all add: slice2_def s)
  have main: "hex_to_rgb s = Inr (hex_byte a b, hex_byte c d, hex_byte e f)"
    by (simp add: hex_to_rgb_def strip slices int16_pair h)
  have hash: "hex_to_rgb (CHR ''#'' # s) = hex_to_rgb s"
    by (simp add: hex_to_rgb_def strip)
  have ex: "hex_to_rgb ''#39D353'' = Inr (57, 211, 83)"
    by code_simp
  show ?thesis
    using main hash ex hex_byte_range [OF h(1) h(2)] hex_byte_range [OF h(3) h(4)]
      hex_byte_range [OF h(5) h(6)]
    by (simp add: s)
qed

theorem hex_to_rgb_six_digits_witness:
  "length ''0d1117'' = 6 \<and> list_all is_hex_digit ''0d1117''
   \<and> hex_to_rgb ''0d1117'' = Inr (13, 17, 23) \<and> hex_to_rgb ''#0d1117'' = Inr (13, 17, 23)"
  using hex_to_rgb_six_digits [of "''0d1117''"]
  by (simp add: is_hex_digit_def hex_digits_def hex_byte_def hex_digit_def)

section \<open>Numbers and indices\<close>

lemma val_plus: "val (a + b) = val a + val b"
  by (cases a; cases b) simp_all

lemma val_minus: "val (a - b) = val a - val b"
  by (cases a; cases b) simp_all

lemma val_times: "val (a * b) = val a * val b"
  by (cases a; cases b) simp_all

lemma py_range_3: "py_range 3 = [0, 1, 2]"
  by (simp add: py_range_def upt_rec)

lemma py_range_set: "i \<in> set (py_range n) \<longleftrightarrow> 0 \<le> i \<and> i < n"
proof
  assume "i \<in> set (py_range n)"
  then show "0 \<le> i \<and> i < n" by (auto simp: py_range_def)
next
  assume "0 \<le> i \<and> i < n"
  then have "nat i \<in> {0..<nat n}" and "i = int (nat i)" by auto
  then show "i \<in> set (py_range n)"
    unfolding py_range_def by (metis image_eqI set_map set_upt)
qed

lemma py_range_nth: "k < nat n \<Longrightarrow> py_range n ! k = int k"
  by (simp add: py_range_def)

lemma py_range_length: "length (py_range n) = nat n"
  by (simp add: py_range_def)

lemma py_index_eq:
  "py_index xs i =
     (if in_range xs i then Inr (xs ! nat (i mod int (length xs))) else Inl IndexError)"
proof (cases "0 \<le> i")
  case True
  then show ?thesis by (simp add: py_index_def in_range_def)
next
  case False
  then have neg: "i < 0" by simp
  show ?thesis
  proof (cases "- int (length xs) \<le> i")
    case True
    with neg have "i mod int (length xs) = int (length xs) + i"
      by (smt (verit) mod_add_self1 mod_pos_pos_trivial)
    with True neg show ?thesis by (simp add: py_index_def in_range_def)
  next
    case False
    with neg show ?thesis by (simp add: py_index_def in_range_def)
  qed
qed

lemma py_index_3:
  "py_index [p, q, r] 0 = Inr p" "py_index [p, q, r] 1 = Inr q" "py_index [p, q, r] 2 = Inr r"
  by (simp_all add: py_index_def)

section \<open>Loops that draw one cell per step\<close>

lemma for_each_rows:
  assumes "\<And>i s. i \<in> set xs \<Longrightarrow>
             \<exists>ops s'. body i s = (None, s') \<and> canvas s' = canvas s @ ops \<and> B i ops"
  shows "\<exists>opss s'. for_each xs body s = (None, s') \<and> canvas s' = canvas s @ concat opss
            \<and> list_all2 B xs opss"
  using assms
proof (induction xs arbitrary: s)
  case Nil
  then show ?case by simp
next
  case (Cons i xs)
  from Cons.prems [of i s] obtain ops s1 where
    b: "body i s = (None, s1)" "canvas s1 = canvas s @ ops" "B i ops"
    by auto
  from Cons.IH [of s1] Cons.prems obtain opss s2 where
    r: "for_each xs body s1 = (None, s2)" "canvas s2 = canvas s1 @ concat opss"
       "list_all2 B xs opss"
    by auto
  have "for_each (i # xs) body s = (None, s2)"
    using b(1) r(1) by simp
  moreover have "canvas s2 = canvas s @ concat (ops # opss)"
    using b(2) r(2) by simp
  moreover have "list_all2 B (i # xs) (ops # opss)"
    using b(3) r(3) by simp
  ultimately show ?case by blast
qed

lemma for_each_cells:
  assumes "\<And>i s. i \<in> set xs \<Longrightarrow>
             \<exists>op s'. body i s = (None, s') \<and> canvas s' = canvas s @ [op] \<and> Q i op"
  shows "\<exists>ops s'. for_each xs body s = (None, s') \<and> canvas s' = canvas s @ ops
            \<and> list_all2 Q xs ops"
  using assms
proof (induction xs arbitrary: s)
  case Nil
  then show ?case by simp
next
  case (Cons i xs)
  from Cons.prems [of i s] obtain op s1 where
    b: "body i s = (None, s1)" "canvas s1 = canvas s @ [op]" "Q i op"
    by auto
  from Cons.IH [of s1] Cons.prems obtain ops s2 where
    r: "for_each xs body s1 = (None, s2)" "canvas s2 = canvas s1 @ ops" "list_all2 Q xs ops"
    by auto
  have "for_each (i # xs) body s = (None, s2)"
    using b(1) r(1) by simp
  moreover have "canvas s2 = canvas s @ (op # ops)"
    using b(2) r(2) by simp
  moreover have "list_all2 Q (i # xs) (op # ops)"
    using b(3) r(3) by simp
  ultimately show ?case by blast
qed

lemma nth_concat_uniform:
  assumes "\<forall>ys \<in> set yss. length ys = m" and "a < length yss" and "b < m"
  shows "concat yss ! (a * m + b) = yss ! a ! b"
  using assms
proof (induction yss arbitrary: a)
  case Nil
  then show ?case by simp
next
  case (Cons ys yss)
  show ?case
  proof (cases a)
    case 0
    with Cons.prems show ?thesis by (simp add: nth_append)
  next
    case (Suc a')
    with Cons.prems have "concat yss ! (a' * m + b) = yss ! a' ! b"
      by (intro Cons.IH) auto
    with Suc Cons.prems show ?thesis by (simp add: nth_append)
  qed
qed

lemma length_concat_uniform:
  assumes "\<forall>ys \<in> set yss. length ys = m"
  shows "length (concat yss) = length yss * m"
  using assms by (induction yss) auto

text \<open>
  Two nested loops whose body draws one cell and never raises: the cells are added in
  the order of the loops, the cell of the pair \<open>(a, b)\<close> at position \<open>a * length ys + b\<close>.
\<close>

lemma grid_loop:
  assumes cell: "\<And>i j s. i \<in> set xs \<Longrightarrow> j \<in> set ys \<Longrightarrow>
             \<exists>op s'. body i j s = (None, s') \<and> canvas s' = canvas s @ [op] \<and> Q i j op"
  shows "\<exists>ops s'. for_each xs (\<lambda>i. for_each ys (body i)) s = (None, s')
            \<and> canvas s' = canvas s @ ops \<and> length ops = length xs * length ys
            \<and> (\<forall>a < length xs. \<forall>b < length ys. Q (xs ! a) (ys ! b) (ops ! (a * length ys + b)))
            \<and> (\<forall>op \<in> set ops. \<exists>i \<in> set xs. \<exists>j \<in> set ys. Q i j op)"
proof -
  have inner: "\<exists>ops s'. for_each ys (body i) s = (None, s') \<and> canvas s' = canvas s @ ops
                 \<and> list_all2 (Q i) ys ops" if "i \<in> set xs" for i s
    using cell [OF that] by (intro for_each_cells) blast
  from for_each_rows [of xs "\<lambda>i. for_each ys (body i)" "\<lambda>i. list_all2 (Q i) ys", OF inner]
  obtain opss s' where
    r: "for_each xs (\<lambda>i. for_each ys (body i)) s = (None, s')"
       "canvas s' = canvas s @ concat opss"
       "list_all2 (\<lambda>i. list_all2 (Q i) ys) xs opss"
    by blast
  have len: "length opss = length xs"
    using r(3) by (simp add: list_all2_lengthD)
  have row: "list_all2 (Q (xs ! a)) ys (opss ! a)" if "a < length xs" for a
    using r(3) that by (simp add: list_all2_conv_all_nth)
  have uni: "\<forall>ops \<in> set opss. length ops = length ys"
  proof
    fix ops assume "ops \<in> set opss"
    then obtain a where "a < length opss" "ops = opss ! a"
      by (auto simp: in_set_conv_nth)
    with row [of a] len show "length ops = length ys"
      by (simp add: list_all2_lengthD)
  qed
  have "Q (xs ! a) (ys ! b) (concat opss ! (a * length ys + b))"
    if "a < length xs" "b < length ys" for a b
  proof -
    have "concat opss ! (a * length ys + b) = opss ! a ! b"
      using uni that len by (intro nth_concat_uniform) auto
    moreover have "Q (xs ! a) (ys ! b) (opss ! a ! b)"
      using row [OF that(1)] that(2) by (simp add: list_all2_conv_all_nth)
    ultimately show ?thesis by simp
  qed
  moreover have "length (concat opss) = length xs * length ys"
    using length_concat_uniform [OF uni] len by simp
  moreover have "\<exists>i \<in> set xs. \<exists>j \<in> set ys. Q i j op" if "op \<in> set (concat opss)" for op
  proof -
    from that obtain ops where o: "ops \<in> set opss" "op \<in> set ops" by auto
    then obtain a where a: "a < length opss" "ops = opss ! a"
      by (auto simp: in_set_conv_nth)
    from o(2) obtain b where b: "b < length ops" "op = ops ! b"
      by (auto simp: in_set_conv_nth)
    from a len have ax: "a < length xs" by simp
    from row [OF ax] a(2) have l2: "list_all2 (Q (xs ! a)) ys ops" by simp
    then have eq: "length ys = length ops" by (simp add: list_all2_lengthD)
    with b l2 have "Q (xs ! a) (ys ! b) op" by (simp add: list_all2_conv_all_nth)
    with ax b eq show ?thesis by (metis nth_mem)
  qed
  ultimately show ?thesis
    using r(1,2) by blast
qed

section \<open>The cells of each grid\<close>

lemma random_random_canvas: "canvas (snd (random_random R w)) = canvas w"
  by (simp add: random_random_def split: prod.splits)

lemma random_choice_ok:
  assumes "below_ok R" and "seq \<noteq> []"
  shows "\<exists>c w'. random_choice R seq w = (Inr c, w') \<and> c \<in> set seq \<and> canvas w' = canvas w"
proof -
  obtain i g' where d: "rnd_below R (length seq) (gen w) = (i, g')"
    by (cases "rnd_below R (length seq) (gen w)")
  have "fst (rnd_below R (length seq) (gen w)) < length seq"
    using assms by (simp add: below_ok_def)
  with d have i: "i < length seq" by simp
  then have "py_index seq (int i) = Inr (seq ! i)"
    by (simp add: py_index_def)
  with d i assms(2) show ?thesis
    by (simp add: random_choice_def)
qed

lemma mini_color_ok:
  assumes "below_ok R" and "0 \<le> col" and "col < cols"
  shows "\<exists>c w'. mini_color R mini_levels col cols w = (Inr c, w') \<and> c \<in> set mini_levels
           \<and> canvas w' = canvas w"
proof -
  obtain r w1 where rr: "random_random R w = (r, w1)"
    by (cases "random_random R w")
  then have c1: "canvas w1 = canvas w"
    using random_random_canvas [of R w] by simp
  have div: "truediv (PyInt col) (PyInt cols) = Inr (PyFloat (of_int col / of_int cols))"
    using assms(2,3) by (simp add: truediv_def)
  show ?thesis
  proof (cases "py_lt r (PyFloat (2 / 10) + (PyFloat (of_int col / of_int cols) * PyFloat (6 / 10)))")
    case True
    have "drop 1 mini_levels \<noteq> []" by (simp add: mini_levels_def)
    from random_choice_ok [OF assms(1) this, of w1] obtain c w' where
      ch: "random_choice R (drop 1 mini_levels) w1 = (Inr c, w')" "c \<in> set (drop 1 mini_levels)"
          "canvas w' = canvas w1"
      by blast
    from ch(2) have "c \<in> set mini_levels" by (meson in_set_dropD)
    with True ch c1 rr div show ?thesis
      by (simp add: mini_color_def)
  next
    case False
    have "py_index mini_levels 0 = Inr CARD_BG" "CARD_BG \<in> set mini_levels"
      by (simp_all add: py_index_def mini_levels_def)
    with False c1 rr div show ?thesis
      by (simp add: mini_color_def)
  qed
qed

lemma draw_mini_grid_cells:
  assumes "below_ok R"
  shows "\<exists>ops s'. draw_mini_grid R x y cell_size gap cols rows w = (None, s')
            \<and> canvas s' = canvas w @ ops \<and> length ops = nat rows * nat cols
            \<and> (\<forall>a < nat rows. \<forall>b < nat cols. \<exists>color \<in> set mini_levels.
                  ops ! (a * nat cols + b) = cell_rect x y cell_size gap (PyInt 4) color (int a, int b))
            \<and> (\<forall>op \<in> set ops. fill op \<in> set mini_levels \<and> radius op = PyInt 4)"
proof -
  let ?Q = "\<lambda>row col op. \<exists>color \<in> set mini_levels.
              op = cell_rect x y cell_size gap (PyInt 4) color (row, col)"
  let ?body = "\<lambda>row col w. case mini_color R mini_levels col cols w of
           (Inl e, w') \<Rightarrow> (Some e, w')
         | (Inr color, w') \<Rightarrow>
             (let cx = x + PyInt col * (cell_size + gap);
                  cy = y + PyInt row * (cell_size + gap)
              in (None, rounded_rectangle (cx, cy, cx + cell_size, cy + cell_size)
                          (PyInt 4) color w'))"
  have cell: "\<exists>op s'. ?body row col s = (None, s') \<and> canvas s' = canvas s @ [op] \<and> ?Q row col op"
    if "row \<in> set (py_range rows)" "col \<in> set (py_range cols)" for row col s
  proof -
    from that(2) have "0 \<le> col" "col < cols" by (simp_all add: py_range_set)
    from mini_color_ok [OF assms this, of s] obtain c w' where
      "mini_color R mini_levels col cols s = (Inr c, w')" "c \<in> set mini_levels" "canvas w' = canvas s"
      by blast
    then show ?thesis
      by (auto simp: rounded_rectangle_def cell_rect_def cell_origin_def Let_def)
  qed
  have fills: "fill op \<in> set mini_levels \<and> radius op = PyInt 4" if "?Q row col op" for row col op
    using that by (auto simp: cell_rect_def cell_origin_def)
  from grid_loop [of "py_range rows" "py_range cols" ?body ?Q, OF cell, of w]
  obtain ops s' where
    r: "for_each (py_range rows) (\<lambda>i. for_each (py_range cols) (?body i)) w = (None, s')"
       "canvas s' = canvas w @ ops" "length ops = nat rows * nat cols"
       "\<forall>a < nat rows. \<forall>b < nat cols. ?Q (py_range rows ! a) (py_range cols ! b) (ops ! (a * nat cols + b))"
       "\<forall>op \<in> set ops. \<exists>i \<in> set (py_range rows). \<exists>j \<in> set (py_range cols). ?Q i j op"
    unfolding py_range_length by blast
  from r(4) have "\<forall>a < nat rows. \<forall>b < nat cols. ?Q (int a) (int b) (ops ! (a * nat cols + b))"
    by (simp add: py_range_nth)
  moreover from r(5) fills have "\<forall>op \<in> set ops. fill op \<in> set mini_levels \<and> radius op = PyInt 4"
    by blast
  ultimately show ?thesis
    unfolding draw_mini_grid_def using r(1,2,3) by blast
qed


lemma contribution_color_ok:
  assumes "below_ok R" and "0 \<le> week" and "week < weeks"
  shows "\<exists>c w'. contribution_color R contribution_levels week weeks w = (Inr c, w')
           \<and> c \<in> set contribution_levels \<union> {CARD_BG} \<and> canvas w' = canvas w"
proof -
  obtain r w1 where rr: "random_random R w = (r, w1)"
    by (cases "random_random R w")
  then have c1: "canvas w1 = canvas w"
    using random_random_canvas [of R w] by simp
  obtain r2 w2 where rr2: "random_random R w1 = (r2, w2)"
    by (cases "random_random R w1")
  then have c2: "canvas w2 = canvas w"
    using random_random_canvas [of R w1] c1 by simp
  have div: "truediv (PyInt week) (PyInt weeks) = Inr (PyFloat (of_int week / of_int weeks))"
    using assms(2,3) by (simp add: truediv_def)
  show ?thesis
  proof (cases "py_lt r (PyFloat (3 / 10) + PyFloat (of_int week / of_int weeks) * PyFloat (7 / 10))")
    case True
    have "drop 1 contribution_levels \<noteq> []" by (simp add: contribution_levels_def)
    from random_choice_ok [OF assms(1) this, of w1] obtain c w' where
      ch: "random_choice R (drop 1 contribution_levels) w1 = (Inr c, w')"
          "c \<in> set (drop 1 contribution_levels)" "canvas w' = canvas w1"
      by blast
    from ch(2) have "c \<in> set contribution_levels" by (meson in_set_dropD)
    with True ch c1 rr div show ?thesis
      by (simp add: contribution_color_def)
  next
    case False
    have idx: "py_index contribution_levels 0 = Inr GREEN_DARK" "GREEN_DARK \<in> set contribution_levels"
      by (simp_all add: py_index_def contribution_levels_def)
    show ?thesis
    proof (cases "py_gt r2 (PyFloat (5 / 10))")
      case True
      with False rr rr2 div idx(1)
      have "contribution_color R contribution_levels week weeks w = (Inr GREEN_DARK, w2)"
        by (simp add: contribution_color_def)
      with c2 idx(2) show ?thesis by blast
    next
      case nogt: False
      with False rr rr2 div
      have "contribution_color R contribution_levels week weeks w = (Inr CARD_BG, w2)"
        by (simp add: contribution_color_def)
      with c2 show ?thesis by blast
    qed
  qed
qed

lemma draw_contribution_grid_cells:
  assumes "below_ok R"
  shows "\<exists>ops s'. draw_contribution_grid R x y cell_size gap weeks w = (None, s')
            \<and> canvas s' = canvas w @ ops \<and> length ops = nat weeks * 7
            \<and> (\<forall>a < nat weeks. \<forall>b < 7. \<exists>color \<in> set contribution_levels \<union> {CARD_BG}.
                  ops ! (a * 7 + b) = cell_rect x y cell_size gap (PyInt 6) color (int b, int a))
            \<and> (\<forall>op \<in> set ops. fill op \<in> set contribution_levels \<union> {CARD_BG} \<and> radius op = PyInt 6)"
proof -
  let ?Q = "\<lambda>week day op. \<exists>color \<in> set contribution_levels \<union> {CARD_BG}.
              op = cell_rect x y cell_size gap (PyInt 6) color (day, week)"
  let ?body = "\<lambda>week day w. case contribution_color R contribution_levels week weeks w of
           (Inl e, w') \<Rightarrow> (Some e, w')
         | (Inr color, w') \<Rightarrow>
             (let cx = x + PyInt week * (cell_size + gap);
                  cy = y + PyInt day * (cell_size + gap)
              in (None, rounded_rectangle (cx, cy, cx + cell_size, cy + cell_size)
                          (PyInt 6) color w'))"
  have cell: "\<exists>op s'. ?body week day s = (None, s') \<and> canvas s' = canvas s @ [op] \<and> ?Q week day op"
    if "week \<in> set (py_range weeks)" "day \<in> set (py_range 7)" for week day s
  proof -
    from that(1) have "0 \<le> week" "week < weeks" by (simp_all add: py_range_set)
    from contribution_color_ok [OF assms this, of s] obtain c w' where
      "contribution_color R contribution_levels week weeks s = (Inr c, w')"
      "c \<in> set contribution_levels \<union> {CARD_BG}" "canvas w' = canvas s"
      by blast
    then show ?thesis
      by (auto simp: rounded_rectangle_def cell_rect_def cell_origin_def Let_def)
  qed
  have fills: "fill op \<in> set contribution_levels \<union> {CARD_BG} \<and> radius op = PyInt 6"
    if "?Q week day op" for week day op
    using that by (auto simp: cell_rect_def cell_origin_def)
  from grid_loop [of "py_range weeks" "py_range 7" ?body ?Q, OF cell, of w]
  obtain ops s' where
    r: "for_each (py_range weeks) (\<lambda>i. for_each (py_range 7) (?body i)) w = (None, s')"
       "canvas s' = canvas w @ ops" "length ops = nat weeks * 7"
       "\<forall>a < nat weeks. \<forall>b < 7. ?Q (py_range weeks ! a) (py_range 7 ! b) (ops ! (a * 7 + b))"
       "\<forall>op \<in> set ops. \<exists>i \<in> set (py_range weeks). \<exists>j \<in> set (py_range 7). ?Q i j op"
    unfolding py_range_length by auto
  from r(4) have "\<forall>a < nat weeks. \<forall>b < 7. ?Q (int a) (int b) (ops ! (a * 7 + b))"
    by (simp add: py_range_nth)
  moreover from r(5) fills
  have "\<forall>op \<in> set ops. fill op \<in> set contribution_levels \<union> {CARD_BG} \<and> radius op = PyInt 6"
    by blast
  ultimately show ?thesis
    unfolding draw_contribution_grid_def using r(1,2,3) by blast
qed

lemma draw_grid_icon_cells:
  "draw_grid_icon x y cell_size gap w =
     (None, w\<lparr>canvas := canvas w @
        map (\<lambda>(rc, color). cell_rect x y cell_size gap (cell_size * PyFloat (2 / 10)) color rc)
          [((0, 0), GREEN_DARK), ((0, 1), GREEN_MED), ((0, 2), GREEN_LIGHT),
           ((1, 0), GREEN_MED), ((1, 1), GREEN_LIGHT), ((1, 2), GREEN_BRIGHT),
           ((2, 0), GREEN_LIGHT), ((2, 1), GREEN_BRIGHT), ((2, 2), GREEN_BRIGHT)]\<rparr>)"
  by (simp add: draw_grid_icon_def draw_grid_icon_on_def py_range_3 py_index_def icon_pattern_def
      icon_levels_def rounded_rectangle_def cell_rect_def cell_origin_def Let_def)

lemma feature_graphic_icon_cells:
  "feature_graphic_icon w =
     (None, w\<lparr>canvas := canvas w @
        map (\<lambda>(rc, color). cell_rect (PyInt 80) (PyInt 150) (PyInt 50) (PyInt 10) (PyInt 10) color rc)
          [((0, 0), GREEN_DARK), ((0, 1), GREEN_MED), ((0, 2), GREEN_LIGHT),
           ((1, 0), GREEN_MED), ((1, 1), GREEN_LIGHT), ((1, 2), GREEN_BRIGHT),
           ((2, 0), GREEN_LIGHT), ((2, 1), GREEN_BRIGHT), ((2, 2), GREEN_BRIGHT)]\<rparr>)"
  by (simp add: feature_graphic_icon_def py_range_3 py_index_def
      rounded_rectangle_def cell_rect_def cell_origin_def Let_def)

lemma icon_module_value:
  "icon_module = Inr (BACKGROUND, [GREEN_DARK, GREEN_MED, GREEN_LIGHT, GREEN_BRIGHT])"
  by code_simp


section \<open>Where a cell is drawn\<close>

lemma cell_rect_geometry:
  "left (cell_rect x y cs gap r color (row, col)) = val x + of_int col * (val cs + val gap)"
  "top (cell_rect x y cs gap r color (row, col)) = val y + of_int row * (val cs + val gap)"
  "right (cell_rect x y cs gap r color (row, col)) = val x + of_int col * (val cs + val gap) + val cs"
  "bottom (cell_rect x y cs gap r color (row, col)) = val y + of_int row * (val cs + val gap) + val cs"
  "top_left (cell_rect x y cs gap r color (row, col)) = cell_origin x y cs gap row col"
  "radius (cell_rect x y cs gap r color (row, col)) = r"
  "fill (cell_rect x y cs gap r color (row, col)) = color"
  by (simp_all add: cell_rect_def cell_origin_def val_plus val_times)

lemma cell_origin_val:
  "val (fst (cell_origin x y cs gap row col)) = val x + of_int col * (val cs + val gap)"
  "val (snd (cell_origin x y cs gap row col)) = val y + of_int row * (val cs + val gap)"
  by (simp_all add: cell_origin_def val_plus val_times)

lemma cell_origin_int:
  assumes "is_int x" and "is_int y" and "is_int cs" and "is_int gap"
  shows "is_int (fst (cell_origin x y cs gap row col))"
    and "is_int (snd (cell_origin x y cs gap row col))"
  using assms by (cases x; cases y; cases cs; cases gap; simp add: cell_origin_def)+

lemma below_ok_tape: "below_ok tape_rng"
  by (auto simp: below_ok_def tape_rng_def split: list.splits)

lemma lt3: "(k::nat) < 3 \<longleftrightarrow> k = 0 \<or> k = 1 \<or> k = 2"
  by auto

lemma grid_icon_nth:
  assumes "a < 3" and "b < 3"
  shows "\<exists>color \<in> set icon_levels.
           added w (draw_grid_icon x y cs gap w) ! (a * 3 + b)
             = cell_rect x y cs gap (cs * PyFloat (2 / 10)) color (int a, int b)"
  using assms
  by (auto simp: lt3 draw_grid_icon_cells added_def icon_levels_def)

lemma feature_icon_nth:
  assumes "a < 3" and "b < 3"
  shows "\<exists>color \<in> set icon_levels.
           added w (feature_graphic_icon w) ! (a * 3 + b)
             = cell_rect (PyInt 80) (PyInt 150) (PyInt 50) (PyInt 10) (PyInt 10) color (int a, int b)"
  using assms
  by (auto simp: lt3 feature_graphic_icon_cells added_def icon_levels_def)

lemma mini_grid_nth:
  assumes "below_ok R" and "a < nat rows" and "b < nat cols"
  shows "\<exists>color \<in> set mini_levels.
           added w (draw_mini_grid R x y cs gap cols rows w) ! (a * nat cols + b)
             = cell_rect x y cs gap (PyInt 4) color (int a, int b)"
proof -
  from draw_mini_grid_cells [OF assms(1), of x y cs gap cols rows w] obtain ops s' where
    r: "draw_mini_grid R x y cs gap cols rows w = (None, s')" "canvas s' = canvas w @ ops"
       "\<forall>a < nat rows. \<forall>b < nat cols. \<exists>color \<in> set mini_levels.
          ops ! (a * nat cols + b) = cell_rect x y cs gap (PyInt 4) color (int a, int b)"
    by blast
  from r(1,2) have "added w (draw_mini_grid R x y cs gap cols rows w) = ops"
    by (simp add: added_def)
  with r(3) assms(2,3) show ?thesis by simp
qed

lemma contribution_grid_nth:
  assumes "below_ok R" and "a < nat weeks" and "b < 7"
  shows "\<exists>color \<in> set contribution_levels \<union> {CARD_BG}.
           added w (draw_contribution_grid R x y cs gap weeks w) ! (a * 7 + b)
             = cell_rect x y cs gap (PyInt 6) color (int b, int a)"
proof -
  from draw_contribution_grid_cells [OF assms(1), of x y cs gap weeks w] obtain ops s' where
    r: "draw_contribution_grid R x y cs gap weeks w = (None, s')" "canvas s' = canvas w @ ops"
       "\<forall>a < nat weeks. \<forall>b < 7. \<exists>color \<in> set contribution_levels \<union> {CARD_BG}.
          ops ! (a * 7 + b) = cell_rect x y cs gap (PyInt 6) color (int b, int a)"
    by blast
  from r(1,2) have "added w (draw_contribution_grid R x y cs gap weeks w) = ops"
    by (simp add: added_def)
  with r(3) assms(2,3) show ?thesis by simp
qed

text \<open>
  C1, as the code has it. In every grid routine with the parameters
  \<open>(x, y, cell_size, gap)\<close>, the cell at \<open>(row, col)\<close> is drawn with its top-left corner at
  \<open>(x + col * (cell_size + gap), y + row * (cell_size + gap))\<close>: \<open>draw_grid_icon\<close>, the icon
  of \<open>create_feature_graphic\<close>, \<open>draw_mini_grid\<close> and \<open>draw_contribution_grid\<close> (whose
  column is the week and whose row is the day). The corner has the value of the formula,
  and the integer arguments that the scripts pass give integer coordinates. \<open>create_icon\<close>
  has no such parameters and is not covered.
\<close>

theorem cell_top_left:
  fixes row col :: nat
  shows "(row < 3 \<and> col < 3 \<longrightarrow>
            top_left (added w (draw_grid_icon x y cell_size gap w) ! (row * 3 + col))
              = cell_origin x y cell_size gap (int row) (int col))
       \<and> (row < 3 \<and> col < 3 \<longrightarrow>
            top_left (added w (feature_graphic_icon w) ! (row * 3 + col))
              = cell_origin (PyInt 80) (PyInt 150) (PyInt 50) (PyInt 10) (int row) (int col))
       \<and> (below_ok R \<and> row < nat rows \<and> col < nat cols \<longrightarrow>
            top_left (added w (draw_mini_grid R x y cell_size gap cols rows w) ! (row * nat cols + col))
              = cell_origin x y cell_size gap (int row) (int col))
       \<and> (below_ok R \<and> col < nat weeks \<and> row < 7 \<longrightarrow>
            top_left (added w (draw_contribution_grid R x y cell_size gap weeks w) ! (col * 7 + row))
              = cell_origin x y cell_size gap (int row) (int col))
       \<and> val (fst (cell_origin x y cell_size gap (int row) (int col)))
            = val x + of_nat col * (val cell_size + val gap)
       \<and> val (snd (cell_origin x y cell_size gap (int row) (int col)))
            = val y + of_nat row * (val cell_size + val gap)
       \<and> (is_int x \<and> is_int y \<and> is_int cell_size \<and> is_int gap \<longrightarrow>
            is_int (fst (cell_origin x y cell_size gap (int row) (int col)))
            \<and> is_int (snd (cell_origin x y cell_size gap (int row) (int col))))"
proof -
  have a: "top_left (added w (draw_grid_icon x y cell_size gap w) ! (row * 3 + col))
             = cell_origin x y cell_size gap (int row) (int col)" if "row < 3" "col < 3"
    using grid_icon_nth [OF that, of w x y cell_size gap] by (auto simp: cell_rect_geometry)
  have b: "top_left (added w (feature_graphic_icon w) ! (row * 3 + col))
             = cell_origin (PyInt 80) (PyInt 150) (PyInt 50) (PyInt 10) (int row) (int col)"
    if "row < 3" "col < 3"
    using feature_icon_nth [OF that, of w] by (auto simp: cell_rect_geometry)
  have c: "top_left (added w (draw_mini_grid R x y cell_size gap cols rows w) ! (row * nat cols + col))
             = cell_origin x y cell_size gap (int row) (int col)"
    if "below_ok R" "row < nat rows" "col < nat cols"
    using mini_grid_nth [OF that, of w x y cell_size gap] by (auto simp: cell_rect_geometry)
  have d: "top_left (added w (draw_contribution_grid R x y cell_size gap weeks w) ! (col * 7 + row))
             = cell_origin x y cell_size gap (int row) (int col)"
    if "below_ok R" "col < nat weeks" "row < 7"
    using contribution_grid_nth [OF that, of w x y cell_size gap] by (auto simp: cell_rect_geometry)
  show ?thesis
    using a b c d cell_origin_val [of x y cell_size gap "int row" "int col"]
      cell_origin_int [of x y cell_size gap "int row" "int col"]
    by simp
qed

theorem cell_top_left_witness:
  "(1::nat) < 3 \<and> (2::nat) < 3 \<and> below_ok tape_rng \<and> (1::nat) < nat 2 \<and> (2::nat) < nat 3
   \<and> (1::nat) < 7 \<and> (2::nat) < nat 4 \<and> is_int (PyInt 100)
   \<and> top_left (added start (draw_grid_icon (PyInt 40) (PyInt 35) (PyInt 40) (PyInt 8) start) ! 5)
       = (PyInt 136, PyInt 83)
   \<and> top_left (added start (draw_mini_grid tape_rng (PyInt 40) (PyInt 35) (PyInt 40) (PyInt 8) 3 2 start) ! 5)
       = (PyInt 136, PyInt 83)
   \<and> top_left (added start (draw_contribution_grid tape_rng (PyInt 40) (PyInt 35) (PyInt 40) (PyInt 8) 4 start) ! 15)
       = (PyInt 136, PyInt 83)"
  using cell_top_left [of 1 2 start "PyInt 40" "PyInt 35" "PyInt 40" "PyInt 8" tape_rng 2 3 4]
    below_ok_tape
  by (simp add: cell_origin_def)

subsection \<open>\<open>create_icon\<close> in doubles\<close>

lemma literals64:
  "lit64 (15 / 100) = 5404319552844595 / 36028797018963968"
  "lit64 (12 / 100) = 1080863910568919 / 9007199254740992"
  "lit64 (2 / 10) = 3602879701896397 / 18014398509481984"
  by code_simp+

lemma icon40:
  "icon_padding64 40 = 6"
  "icon_cell_size64 40 = 5254199565265579 / 562949953421312"
  "icon_gap64 40 = 1261007895663739 / 1125899906842624"
  "icon_actual_cell64 40 = 2311847808716855 / 281474976710656"
proof -
  show p: "icon_padding64 40 = 6"
    unfolding icon_padding64_def literals64 by code_simp
  show c: "icon_cell_size64 40 = 5254199565265579 / 562949953421312"
    unfolding icon_cell_size64_def p by code_simp
  show g: "icon_gap64 40 = 1261007895663739 / 1125899906842624"
    unfolding icon_gap64_def c literals64 by code_simp
  show "icon_actual_cell64 40 = 2311847808716855 / 281474976710656"
    unfolding icon_actual_cell64_def c g by code_simp
qed

lemma icon40_x:
  "icon_x64 40 1 = 4473575629854693 / 281474976710656"
  "contract_x64 40 1 = 8947151259709387 / 562949953421312"
  unfolding icon_x64_def contract_x64_def icon40 by code_simp+

lemma icon1024:
  "icon_padding64 1024 = 5404319552844595 / 35184372088832"
  "icon_cell_size64 1024 = 8406719304424925 / 35184372088832"
  "icon_gap64 1024 = 1008806316530991 / 35184372088832"
proof -
  show p: "icon_padding64 1024 = 5404319552844595 / 35184372088832"
    unfolding icon_padding64_def literals64 by code_simp
  show c: "icon_cell_size64 1024 = 8406719304424925 / 35184372088832"
    unfolding icon_cell_size64_def p by code_simp
  show "icon_gap64 1024 = 1008806316530991 / 35184372088832"
    unfolding icon_gap64_def c literals64 by code_simp
qed

lemma icon1024_x:
  "icon_x64 1024 1 = 1789430251941877 / 4398046511104"
  "icon_x64 1024 2 = 5680540329989985 / 8796093022208"
  "named_x64 1024 1 = 231560080840633 / 549755813888"
  unfolding icon_x64_def named_x64_def icon1024 by code_simp+



text \<open>
  C1 as stated fails on \<open>create_icon\<close>, in the doubles in which it computes. Read on the
  layout of the drawn cells, the formula gives for size 40 and column 1 the double after
  the \<open>x\<close> that the code computes. Read on the variables that the code calls \<open>padding\<close>,
  \<open>cell_size\<close> and \<open>gap\<close>, it gives for size 1024 and column 1 a coordinate more than
  14 pixels to the right of it.
\<close>

theorem create_icon_corner_counterexample:
  "icon_x64 40 1 = 4473575629854693 / 281474976710656
   \<and> contract_x64 40 1 = 8947151259709387 / 562949953421312
   \<and> icon_x64 40 1 \<noteq> contract_x64 40 1
   \<and> icon_x64 1024 1 = 1789430251941877 / 4398046511104
   \<and> named_x64 1024 1 = 231560080840633 / 549755813888
   \<and> icon_x64 1024 1 + 14 < named_x64 1024 1"
  by (simp add: icon40_x icon1024_x)

section \<open>The scenario of the specification and the corner radius\<close>

lemma GRID_COLORS_value: "GRID_COLORS = [GREEN_DARK, GREEN_MED, GREEN_LIGHT, GREEN_BRIGHT]"
  by (simp add: GRID_COLORS_def icon_module_value)





section \<open>Adjacent cells\<close>

text \<open>
  C8. With a positive gap, two cells in adjacent columns of a grid have x coordinates
  that differ by \<open>cell_size + gap\<close>, which is more than \<open>cell_size\<close>, so the left cell ends
  before the right one begins; the same holds for adjacent rows. This is proved for
  \<open>draw_grid_icon\<close> and for \<open>draw_mini_grid\<close>.
\<close>

theorem adjacent_cells_apart:
  fixes row col :: nat
  assumes "0 < val gap"
  shows "(row < 3 \<and> col + 1 < 3 \<longrightarrow>
            (let ops = added w (draw_grid_icon x y cell_size gap w)
             in left (ops ! (row * 3 + (col + 1))) - left (ops ! (row * 3 + col)) = val cell_size + val gap
                \<and> val cell_size + val gap > val cell_size
                \<and> right (ops ! (row * 3 + col)) < left (ops ! (row * 3 + (col + 1)))))
       \<and> (row + 1 < 3 \<and> col < 3 \<longrightarrow>
            (let ops = added w (draw_grid_icon x y cell_size gap w)
             in top (ops ! ((row + 1) * 3 + col)) - top (ops ! (row * 3 + col)) = val cell_size + val gap
                \<and> bottom (ops ! (row * 3 + col)) < top (ops ! ((row + 1) * 3 + col))))
       \<and> (below_ok R \<and> row < nat rows \<and> col + 1 < nat cols \<longrightarrow>
            (let ops = added w (draw_mini_grid R x y cell_size gap cols rows w)
             in left (ops ! (row * nat cols + (col + 1))) - left (ops ! (row * nat cols + col))
                  = val cell_size + val gap
                \<and> val cell_size + val gap > val cell_size
                \<and> right (ops ! (row * nat cols + col)) < left (ops ! (row * nat cols + (col + 1)))))
       \<and> (below_ok R \<and> row + 1 < nat rows \<and> col < nat cols \<longrightarrow>
            (let ops = added w (draw_mini_grid R x y cell_size gap cols rows w)
             in top (ops ! ((row + 1) * nat cols + col)) - top (ops ! (row * nat cols + col))
                  = val cell_size + val gap
                \<and> bottom (ops ! (row * nat cols + col)) < top (ops ! ((row + 1) * nat cols + col))))"
proof -
  have cols_apart: "left q - left p = val cell_size + val gap \<and> val cell_size + val gap > val cell_size
      \<and> right p < left q"
    if "p = cell_rect x y cell_size gap r1 c1 (int a, int b)"
       "q = cell_rect x y cell_size gap r2 c2 (int a, int (b + 1))" for p q r1 r2 c1 c2 a b
    using that assms by (simp add: cell_rect_geometry algebra_simps)
  have rows_apart: "top q - top p = val cell_size + val gap \<and> bottom p < top q"
    if "p = cell_rect x y cell_size gap r1 c1 (int a, int b)"
       "q = cell_rect x y cell_size gap r2 c2 (int (a + 1), int b)" for p q r1 r2 c1 c2 a b
    using that assms by (simp add: cell_rect_geometry algebra_simps)
  have a: "let ops = added w (draw_grid_icon x y cell_size gap w)
             in left (ops ! (row * 3 + (col + 1))) - left (ops ! (row * 3 + col)) = val cell_size + val gap
                \<and> val cell_size + val gap > val cell_size
                \<and> right (ops ! (row * 3 + col)) < left (ops ! (row * 3 + (col + 1)))"
    if "row < 3" "col + 1 < 3"
  proof -
    from that have "col < 3" by simp
    from grid_icon_nth [OF that(1) this, of w x y cell_size gap]
      grid_icon_nth [OF that(1) that(2), of w x y cell_size gap]
    show ?thesis using cols_apart by (metis (no_types, lifting))
  qed
  have b: "let ops = added w (draw_grid_icon x y cell_size gap w)
             in top (ops ! ((row + 1) * 3 + col)) - top (ops ! (row * 3 + col)) = val cell_size + val gap
                \<and> bottom (ops ! (row * 3 + col)) < top (ops ! ((row + 1) * 3 + col))"
    if "row + 1 < 3" "col < 3"
  proof -
    from that have "row < 3" by simp
    from grid_icon_nth [OF this that(2), of w x y cell_size gap]
      grid_icon_nth [OF that(1) that(2), of w x y cell_size gap]
    show ?thesis using rows_apart by (metis (no_types, lifting))
  qed
  have c: "let ops = added w (draw_mini_grid R x y cell_size gap cols rows w)
             in left (ops ! (row * nat cols + (col + 1))) - left (ops ! (row * nat cols + col))
                  = val cell_size + val gap
                \<and> val cell_size + val gap > val cell_size
                \<and> right (ops ! (row * nat cols + col)) < left (ops ! (row * nat cols + (col + 1)))"
    if "below_ok R" "row < nat rows" "col + 1 < nat cols"
  proof -
    from that have "col < nat cols" by simp
    from mini_grid_nth [OF that(1,2) this, of w x y cell_size gap]
      mini_grid_nth [OF that, of w x y cell_size gap]
    show ?thesis using cols_apart by (metis (no_types, lifting))
  qed
  have d: "let ops = added w (draw_mini_grid R x y cell_size gap cols rows w)
             in top (ops ! ((row + 1) * nat cols + col)) - top (ops ! (row * nat cols + col))
                  = val cell_size + val gap
                \<and> bottom (ops ! (row * nat cols + col)) < top (ops ! ((row + 1) * nat cols + col))"
    if "below_ok R" "row + 1 < nat rows" "col < nat cols"
  proof -
    from that have "row < nat rows" by simp
    from mini_grid_nth [OF that(1) this that(3), of w x y cell_size gap]
      mini_grid_nth [OF that, of w x y cell_size gap]
    show ?thesis using rows_apart by (metis (no_types, lifting))
  qed
  from a b c d show ?thesis by blast
qed

theorem adjacent_cells_apart_witness:
  "0 < val (PyInt 4) \<and> (1::nat) < 3 \<and> (1::nat) + 1 < 3 \<and> below_ok tape_rng
   \<and> (1::nat) < nat 5 \<and> (1::nat) + 1 < nat 15
   \<and> left (added start (draw_grid_icon (PyInt 50) (PyInt 100) (PyInt 20) (PyInt 4) start) ! 5)
      - left (added start (draw_grid_icon (PyInt 50) (PyInt 100) (PyInt 20) (PyInt 4) start) ! 4) = 24
   \<and> left (added start (draw_mini_grid tape_rng (PyInt 50) (PyInt 100) (PyInt 20) (PyInt 4) 15 5 start) ! 17)
      - left (added start (draw_mini_grid tape_rng (PyInt 50) (PyInt 100) (PyInt 20) (PyInt 4) 15 5 start) ! 16)
        = 24
   \<and> top (added start (draw_mini_grid tape_rng (PyInt 50) (PyInt 100) (PyInt 20) (PyInt 4) 15 5 start) ! 31)
      - top (added start (draw_mini_grid tape_rng (PyInt 50) (PyInt 100) (PyInt 20) (PyInt 4) 15 5 start) ! 16)
        = 24"
  using adjacent_cells_apart [of "PyInt 4" 1 1 start "PyInt 50" "PyInt 100" "PyInt 20" tape_rng 5 15]
    below_ok_tape
  by (simp add: Let_def)

section \<open>The colours of the randomised grids\<close>

lemma mini_fallback:
  assumes "0 \<le> col" and "col < cols"
    and "\<not> fst (rnd_random R (gen w)) < 2 / 10 + of_int col / of_int cols * (6 / 10)"
  shows "fst (mini_color R mini_levels col cols w) = Inr CARD_BG"
  using assms
  by (auto simp: mini_color_def truediv_def random_random_def py_lt_def py_index_def mini_levels_def
      split: prod.splits)

lemma contribution_fallback:
  assumes "0 \<le> week" and "week < weeks"
    and "\<not> fst (rnd_random R (gen w)) < 3 / 10 + of_int week / of_int weeks * (7 / 10)"
  shows "fst (contribution_color R contribution_levels week weeks w) \<in> {Inr GREEN_DARK, Inr CARD_BG}"
  using assms
  by (auto simp: contribution_color_def truediv_def random_random_def py_lt_def py_index_def
      contribution_levels_def Let_def split: prod.splits)

text \<open>
  C10, as the code has it. When the index that \<open>random.choice\<close> draws is below the length of
  the sequence, the randomised grids never raise. In \<open>draw_mini_grid\<close> the sequence
  \<open>levels[1:]\<close> has four entries and every cell is filled with an entry of \<open>levels\<close>; when
  the first draw is not below the threshold the colour is \<open>levels[0]\<close>, the card background.
  In \<open>draw_contribution_grid\<close> the sequence \<open>levels[1:]\<close> has three entries and every cell is
  filled with an entry of \<open>levels\<close> or with \<open>CARD_BG\<close>, which is not in \<open>levels\<close>; when the
  first draw is not below the threshold the colour is \<open>levels[0]\<close>, the darkest green, or
  \<open>CARD_BG\<close>.
\<close>

theorem random_cell_colors:
  assumes "below_ok R"
  shows "fst (draw_mini_grid R x y cell_size gap cols rows w) = None
       \<and> (\<forall>op \<in> set (added w (draw_mini_grid R x y cell_size gap cols rows w)).
            fill op \<in> set mini_levels)
       \<and> length (drop 1 mini_levels) = 4
       \<and> py_index mini_levels 0 = Inr CARD_BG
       \<and> fst (draw_contribution_grid R x y cell_size gap weeks w) = None
       \<and> (\<forall>op \<in> set (added w (draw_contribution_grid R x y cell_size gap weeks w)).
            fill op \<in> set contribution_levels \<union> {CARD_BG})
       \<and> length (drop 1 contribution_levels) = 3
       \<and> py_index contribution_levels 0 = Inr GREEN_DARK
       \<and> CARD_BG \<notin> set contribution_levels
       \<and> (0 \<le> col \<and> col < cols
            \<and> \<not> fst (rnd_random R (gen w)) < 2 / 10 + of_int col / of_int cols * (6 / 10) \<longrightarrow>
            fst (mini_color R mini_levels col cols w) = Inr CARD_BG)
       \<and> (0 \<le> week \<and> week < weeks
            \<and> \<not> fst (rnd_random R (gen w)) < 3 / 10 + of_int week / of_int weeks * (7 / 10) \<longrightarrow>
            fst (contribution_color R contribution_levels week weeks w)
              \<in> {Inr GREEN_DARK, Inr CARD_BG})"
proof -
  from draw_mini_grid_cells [OF assms, of x y cell_size gap cols rows w] obtain ops s' where
    m: "draw_mini_grid R x y cell_size gap cols rows w = (None, s')" "canvas s' = canvas w @ ops"
       "\<forall>op \<in> set ops. fill op \<in> set mini_levels \<and> radius op = PyInt 4"
    by blast
  from draw_contribution_grid_cells [OF assms, of x y cell_size gap weeks w] obtain ops2 s2 where
    c: "draw_contribution_grid R x y cell_size gap weeks w = (None, s2)" "canvas s2 = canvas w @ ops2"
       "\<forall>op \<in> set ops2. fill op \<in> set contribution_levels \<union> {CARD_BG} \<and> radius op = PyInt 6"
    by blast
  have m1: "fst (draw_mini_grid R x y cell_size gap cols rows w) = None"
    and m2: "\<forall>op \<in> set (added w (draw_mini_grid R x y cell_size gap cols rows w)).
            fill op \<in> set mini_levels"
    using m by (simp_all add: added_def)
  have c1: "fst (draw_contribution_grid R x y cell_size gap weeks w) = None"
    and c2: "\<forall>op \<in> set (added w (draw_contribution_grid R x y cell_size gap weeks w)).
            fill op \<in> set contribution_levels \<union> {CARD_BG}"
    using c by (simp_all add: added_def)
  have tables: "length (drop 1 mini_levels) = 4" "py_index mini_levels 0 = Inr CARD_BG"
    "length (drop 1 contribution_levels) = 3" "py_index contribution_levels 0 = Inr GREEN_DARK"
    "CARD_BG \<notin> set contribution_levels"
    by (simp_all add: mini_levels_def contribution_levels_def py_index_def CARD_BG_def
        GREEN_DARK_def GREEN_MED_def GREEN_LIGHT_def GREEN_BRIGHT_def)
  from m1 m2 c1 c2 tables mini_fallback [of col cols R w] contribution_fallback [of week weeks R w]
  show ?thesis by blast
qed

lemma mini_run: "draw_mini_grid tape_rng (PyInt 0) (PyInt 0) (PyInt 20) (PyInt 4) 2 1 (blank ([9 / 10, 1 / 10], [6]))
  = (None, \<lparr>canvas = [RoundedRectangle (PyInt 0, PyInt 0, PyInt 20, PyInt 20) (PyInt 4) CARD_BG,
                       RoundedRectangle (PyInt 24, PyInt 0, PyInt 44, PyInt 20) (PyInt 4) GREEN_LIGHT],
            gen = ([], [])\<rparr>)"
  by code_simp

lemma contribution_run:
  "draw_contribution_grid tape_rng (PyInt 0) (PyInt 0) (PyInt 28) (PyInt 6) 1 (blank ([1 / 2, 1 / 2], []))
     = (None, \<lparr>canvas = 
          [RoundedRectangle (PyInt 0, PyInt 0, PyInt 28, PyInt 28) (PyInt 6) CARD_BG,
           RoundedRectangle (PyInt 0, PyInt 34, PyInt 28, PyInt 62) (PyInt 6) GREEN_MED,
           RoundedRectangle (PyInt 0, PyInt 68, PyInt 28, PyInt 96) (PyInt 6) GREEN_MED,
           RoundedRectangle (PyInt 0, PyInt 102, PyInt 28, PyInt 130) (PyInt 6) GREEN_MED,
           RoundedRectangle (PyInt 0, PyInt 136, PyInt 28, PyInt 164) (PyInt 6) GREEN_MED,
           RoundedRectangle (PyInt 0, PyInt 170, PyInt 28, PyInt 198) (PyInt 6) GREEN_MED,
           RoundedRectangle (PyInt 0, PyInt 204, PyInt 28, PyInt 232) (PyInt 6) GREEN_MED],
          gen = ([], [])\<rparr>)"
  by code_simp

theorem random_cell_colors_witness:
  "below_ok tape_rng
   \<and> fst (draw_mini_grid tape_rng (PyInt 0) (PyInt 0) (PyInt 20) (PyInt 4) 2 1 (blank ([9 / 10, 1 / 10], [6]))) = None
   \<and> CARD_BG \<in> set mini_levels
   \<and> map fill (added (blank ([9 / 10, 1 / 10], [6]))
        (draw_mini_grid tape_rng (PyInt 0) (PyInt 0) (PyInt 20) (PyInt 4) 2 1 (blank ([9 / 10, 1 / 10], [6]))))
       = [CARD_BG, GREEN_LIGHT]
   \<and> (0::int) \<le> 0 \<and> (0::int) < 2
   \<and> \<not> fst (rnd_random tape_rng (gen (blank ([9 / 10, 1 / 10], [6])))) < 2 / 10 + of_int 0 / of_int 2 * (6 / 10)
   \<and> fst (mini_color tape_rng mini_levels 0 2 (blank ([9 / 10, 1 / 10], [6]))) = Inr CARD_BG
   \<and> (0::int) < 1
   \<and> \<not> fst (rnd_random tape_rng (gen (blank ([1 / 2, 1 / 2], [])))) < 3 / 10 + of_int 0 / of_int 1 * (7 / 10)
   \<and> fst (contribution_color tape_rng contribution_levels 0 1 (blank ([1 / 2, 1 / 2], [])))
        \<in> {Inr GREEN_DARK, Inr CARD_BG}"
  using random_cell_colors [of tape_rng "PyInt 0" "PyInt 0" "PyInt 20" "PyInt 4" 2 1
      "blank ([9 / 10, 1 / 10], [6])" 1 0 0]
    random_cell_colors [of tape_rng "PyInt 0" "PyInt 0" "PyInt 28" "PyInt 6" 1 1
      "blank ([1 / 2, 1 / 2], [])" 1 0 0]
    below_ok_tape mini_run
  by (simp add: added_def blank_def tape_rng_def mini_levels_def)

text \<open>
  C10 as stated fails on \<open>draw_contribution_grid\<close>: its \<open>levels[1:]\<close> has three entries, not
  four, and a cell can be filled with \<open>CARD_BG\<close>, which is not an entry of its palette.
\<close>

theorem bright_sub_palette_counterexample:
  "length (drop 1 contribution_levels) \<noteq> 4
   \<and> fst (draw_contribution_grid tape_rng (PyInt 0) (PyInt 0) (PyInt 28) (PyInt 6) 1
            (blank ([1 / 2, 1 / 2], []))) = None
   \<and> fill (canvas (snd (draw_contribution_grid tape_rng (PyInt 0) (PyInt 0) (PyInt 28) (PyInt 6) 1
            (blank ([1 / 2, 1 / 2], [])))) ! 0) = CARD_BG
   \<and> CARD_BG \<notin> set contribution_levels"
  using contribution_run
  by (simp add: contribution_levels_def CARD_BG_def
        GREEN_DARK_def GREEN_MED_def GREEN_LIGHT_def GREEN_BRIGHT_def)

section \<open>The deterministic grids do not read the random source\<close>

lemma for_each_same_canvas:
  fixes s t :: "'g world"
  assumes "\<And>i s t. canvas s = canvas t \<Longrightarrow>
             fst (body i s) = fst (body i t) \<and> canvas (snd (body i s)) = canvas (snd (body i t))"
    and "canvas s = canvas t"
  shows "fst (for_each xs body s) = fst (for_each xs body t)
       \<and> canvas (snd (for_each xs body s)) = canvas (snd (for_each xs body t))"
  using assms(2)
proof (induction xs arbitrary: s t)
  case Nil
  then show ?case by simp
next
  case (Cons i xs)
  obtain e s1 where bs: "body i s = (e, s1)" by (cases "body i s")
  obtain e' t1 where bt: "body i t = (e', t1)" by (cases "body i t")
  from assms(1) [of s t i] Cons.prems bs bt have same: "e' = e" "canvas s1 = canvas t1"
    by simp_all
  from bt same(1) have bt': "body i t = (e, t1)" by simp
  show ?case
  proof (cases e)
    case None
    from Cons.IH [of s1 t1] same(2)
    have "fst (for_each xs body s1) = fst (for_each xs body t1)
       \<and> canvas (snd (for_each xs body s1)) = canvas (snd (for_each xs body t1))"
      by simp
    with bs bt' None show ?thesis by simp
  next
    case (Some err)
    with same(2) bs bt' show ?thesis by simp
  qed
qed

lemma grid_same_canvas:
  fixes s t :: "'g world"
  assumes cell: "\<And>i j s t. canvas s = canvas t \<Longrightarrow>
             fst (body i j s) = fst (body i j t)
             \<and> canvas (snd (body i j s)) = canvas (snd (body i j t))"
    and "canvas s = canvas t"
  shows "fst (for_each xs (\<lambda>i. for_each ys (body i)) s) = fst (for_each xs (\<lambda>i. for_each ys (body i)) t)
       \<and> canvas (snd (for_each xs (\<lambda>i. for_each ys (body i)) s))
           = canvas (snd (for_each xs (\<lambda>i. for_each ys (body i)) t))"
proof (rule for_each_same_canvas [OF _ assms(2)])
  fix i and s t :: "'g world"
  assume st: "canvas s = canvas t"
  show "fst (for_each ys (body i) s) = fst (for_each ys (body i) t)
       \<and> canvas (snd (for_each ys (body i) s)) = canvas (snd (for_each ys (body i) t))"
    by (rule for_each_same_canvas [where body = "body i", OF cell st])
qed

lemma for_each_gen:
  fixes s :: "'g world"
  assumes "\<And>i s. gen (snd (body i s)) = gen s"
  shows "gen (snd (for_each xs body s)) = gen s"
proof (induction xs arbitrary: s)
  case Nil
  then show ?case by simp
next
  case (Cons i xs)
  obtain e s1 where bs: "body i s = (e, s1)" by (cases "body i s")
  with assms [of i s] have g1: "gen s1 = gen s" by simp
  show ?case
  proof (cases e)
    case None
    with bs Cons.IH [of s1] g1 show ?thesis by simp
  next
    case (Some err)
    with bs g1 show ?thesis by simp
  qed
qed

lemma grid_gen:
  fixes s :: "'g world"
  assumes "\<And>i j s. gen (snd (body i j s)) = gen s"
  shows "gen (snd (for_each xs (\<lambda>i. for_each ys (body i)) s)) = gen s"
  by (rule for_each_gen) (rule for_each_gen, rule assms)

lemma draw_grid_icon_on_deterministic:
  fixes w1 w2 :: "'g world"
  assumes "canvas w1 = canvas w2"
  shows "fst (draw_grid_icon_on levels pattern x y cs gap w1)
           = fst (draw_grid_icon_on levels pattern x y cs gap w2)
       \<and> canvas (snd (draw_grid_icon_on levels pattern x y cs gap w1))
           = canvas (snd (draw_grid_icon_on levels pattern x y cs gap w2))"
proof -
  let ?body = "\<lambda>row col w.
         case py_index pattern row of
           Inl e \<Rightarrow> (Some e, w)
         | Inr pattern_row \<Rightarrow>
             (case py_index pattern_row col of
                Inl e \<Rightarrow> (Some e, w)
              | Inr level \<Rightarrow>
                  (case py_index levels level of
                     Inl e \<Rightarrow> (Some e, w)
                   | Inr color \<Rightarrow>
                       (let cx = x + PyInt col * (cs + gap);
                            cy = y + PyInt row * (cs + gap)
                        in (None, rounded_rectangle (cx, cy, cx + cs, cy + cs)
                                    (cs * PyFloat (2 / 10)) color w))))"
  have cell: "fst (?body i j s) = fst (?body i j t) \<and> canvas (snd (?body i j s)) = canvas (snd (?body i j t))"
    if "canvas s = canvas t" for i j and s t :: "'g world"
    using that by (simp add: rounded_rectangle_def Let_def split: sum.splits)
  show ?thesis
    unfolding draw_grid_icon_on_def
    by (rule grid_same_canvas [of ?body, OF cell assms])
qed

lemma draw_grid_icon_on_gen:
  fixes w :: "'g world"
  shows "gen (snd (draw_grid_icon_on levels pattern x y cs gap w)) = gen w"
proof -
  let ?body = "\<lambda>row col w.
         case py_index pattern row of
           Inl e \<Rightarrow> (Some e, w)
         | Inr pattern_row \<Rightarrow>
             (case py_index pattern_row col of
                Inl e \<Rightarrow> (Some e, w)
              | Inr level \<Rightarrow>
                  (case py_index levels level of
                     Inl e \<Rightarrow> (Some e, w)
                   | Inr color \<Rightarrow>
                       (let cx = x + PyInt col * (cs + gap);
                            cy = y + PyInt row * (cs + gap)
                        in (None, rounded_rectangle (cx, cy, cx + cs, cy + cs)
                                    (cs * PyFloat (2 / 10)) color w))))"
  have cell: "gen (snd (?body i j s)) = gen s" for i j and s :: "'g world"
    by (simp add: rounded_rectangle_def Let_def split: sum.splits)
  show ?thesis
    unfolding draw_grid_icon_on_def
    by (rule grid_gen [of ?body, OF cell])
qed

lemma icon_cell_size:
  "truediv (PyInt sz - PyInt sz * PyFloat (15 / 100) * PyInt 2) (PyInt 3)
     = Inr (PyFloat (val (PyInt sz - PyInt sz * PyFloat (15 / 100) * PyInt 2) / 3))"
  by (simp add: truediv_def)

lemma create_icon_on_deterministic:
  fixes w1 w2 :: "'g world"
  shows "fst (create_icon_on bg colors levels sz w1) = fst (create_icon_on bg colors levels sz w2)
       \<and> canvas (snd (create_icon_on bg colors levels sz w1))
           = canvas (snd (create_icon_on bg colors levels sz w2))"
  unfolding create_icon_on_def Let_def icon_cell_size sum.case
  by (rule grid_same_canvas) (simp_all add: rounded_rectangle_def split: sum.splits)

lemma create_icon_on_gen:
  fixes w :: "'g world"
  shows "gen (snd (create_icon_on bg colors levels sz w)) = gen w"
proof -
  have "gen (snd (create_icon_on bg colors levels sz w)) = gen (w\<lparr>canvas := [NewImage sz sz bg]\<rparr>)"
    unfolding create_icon_on_def Let_def icon_cell_size sum.case
    by (rule grid_gen) (simp add: rounded_rectangle_def split: sum.splits)
  then show ?thesis by simp
qed

lemma mini_run_start:
  "draw_mini_grid tape_rng (PyInt 0) (PyInt 0) (PyInt 20) (PyInt 4) 2 1 start
  = (None, \<lparr>canvas = [RoundedRectangle (PyInt 0, PyInt 0, PyInt 20, PyInt 20) (PyInt 4) GREEN_DARK,
                       RoundedRectangle (PyInt 24, PyInt 0, PyInt 44, PyInt 20) (PyInt 4) GREEN_DARK],
            gen = ([], [])\<rparr>)"
  by code_simp

text \<open>
  C6. Two runs of a deterministic grid routine on the same level matrix, palette and layout
  parameters make the same drawing calls, whatever the state of the random source, and
  leave that state as it was: \<open>draw_grid_icon\<close> on equal images, \<open>create_icon\<close> on its new
  image. The randomised \<open>draw_mini_grid\<close> is excluded: from the same image, two states of
  the random source give different drawings.
\<close>

theorem deterministic_render:
  fixes w1 w2 :: "'g world"
  shows "(canvas w1 = canvas w2 \<longrightarrow>
            fst (draw_grid_icon_on levels pattern x y cell_size gap w1)
              = fst (draw_grid_icon_on levels pattern x y cell_size gap w2)
            \<and> canvas (snd (draw_grid_icon_on levels pattern x y cell_size gap w1))
              = canvas (snd (draw_grid_icon_on levels pattern x y cell_size gap w2)))
       \<and> (canvas w1 = canvas w2 \<longrightarrow>
            fst (draw_grid_icon x y cell_size gap w1) = fst (draw_grid_icon x y cell_size gap w2)
            \<and> canvas (snd (draw_grid_icon x y cell_size gap w1))
              = canvas (snd (draw_grid_icon x y cell_size gap w2)))
       \<and> gen (snd (draw_grid_icon_on levels pattern x y cell_size gap w1)) = gen w1
       \<and> fst (create_icon_on bg colors grid sz w1) = fst (create_icon_on bg colors grid sz w2)
       \<and> canvas (snd (create_icon_on bg colors grid sz w1))
            = canvas (snd (create_icon_on bg colors grid sz w2))
       \<and> fst (create_icon sz w1) = fst (create_icon sz w2)
       \<and> canvas (snd (create_icon sz w1)) = canvas (snd (create_icon sz w2))
       \<and> gen (snd (create_icon_on bg colors grid sz w1)) = gen w1
       \<and> canvas (blank ([9 / 10, 1 / 10], [6])) = canvas start
       \<and> canvas (snd (draw_mini_grid tape_rng (PyInt 0) (PyInt 0) (PyInt 20) (PyInt 4) 2 1
                         (blank ([9 / 10, 1 / 10], [6]))))
            \<noteq> canvas (snd (draw_mini_grid tape_rng (PyInt 0) (PyInt 0) (PyInt 20) (PyInt 4) 2 1 start))"
proof -
  have a: "fst (draw_grid_icon_on levels pattern x y cell_size gap w1)
              = fst (draw_grid_icon_on levels pattern x y cell_size gap w2)
            \<and> canvas (snd (draw_grid_icon_on levels pattern x y cell_size gap w1))
              = canvas (snd (draw_grid_icon_on levels pattern x y cell_size gap w2))"
    if "canvas w1 = canvas w2" for levels pattern
    using that by (rule draw_grid_icon_on_deterministic)
  have b: "fst (create_icon sz w1) = fst (create_icon sz w2)
       \<and> canvas (snd (create_icon sz w1)) = canvas (snd (create_icon sz w2))"
    using create_icon_on_deterministic [of BACKGROUND _ grid_levels sz w1 w2]
    by (simp add: create_icon_def icon_module_value)
  have c: "canvas (blank ([9 / 10, 1 / 10], [6])) = canvas start"
    by (simp add: blank_def start_def)
  have d: "canvas (snd (draw_mini_grid tape_rng (PyInt 0) (PyInt 0) (PyInt 20) (PyInt 4) 2 1
                         (blank ([9 / 10, 1 / 10], [6]))))
            \<noteq> canvas (snd (draw_mini_grid tape_rng (PyInt 0) (PyInt 0) (PyInt 20) (PyInt 4) 2 1 start))"
    by (simp add: mini_run mini_run_start CARD_BG_def GREEN_DARK_def)
  from a [of levels pattern] a [of icon_levels icon_pattern] b c d
    draw_grid_icon_on_gen [of levels pattern x y cell_size gap w1]
    create_icon_on_deterministic [of bg colors grid sz w1 w2]
    create_icon_on_gen [of bg colors grid sz w1]
  show ?thesis
    unfolding draw_grid_icon_def by blast
qed

theorem deterministic_render_witness:
  "canvas other_start = canvas start
   \<and> gen other_start \<noteq> gen start
   \<and> canvas (snd (draw_grid_icon (PyInt 40) (PyInt 35) (PyInt 40) (PyInt 8) other_start))
       = canvas (snd (draw_grid_icon (PyInt 40) (PyInt 35) (PyInt 40) (PyInt 8) start))
   \<and> gen (snd (draw_grid_icon_on icon_levels icon_pattern (PyInt 40) (PyInt 35) (PyInt 40) (PyInt 8)
              other_start)) = ([1 / 2], [3])"
  using deterministic_render [of other_start start icon_levels icon_pattern
      "PyInt 40" "PyInt 35" "PyInt 40" "PyInt 8" BACKGROUND icon_levels grid_levels 1024]
  by (simp add: blank_def start_def other_start_def)

section \<open>Palette lookups outside the palette\<close>

text \<open>
  C3, as the code has it. The palette lookup of a deterministic grid neither clamps nor
  substitutes a colour. For a 3x3 level matrix, \<open>create_icon\<close> (index \<open>level - 1\<close>) and
  \<open>draw_grid_icon\<close> (index \<open>level\<close>) draw the cells in row-major order up to the first
  cell whose index is not in \<open>-len(palette) \<dots> len(palette) - 1\<close>; there the lookup raises
  \<open>IndexError\<close>, nothing catches it, and no later cell is drawn. An index in
  \<open>-len(palette) \<dots> -1\<close> is not a failure: it counts from the end of the palette.
\<close>

theorem lookup_stops_at_first_bad_index:
  "fst (create_icon_on bg colors [[a, b, c], [d, e, f], [g, h, i]] sz w)
     = (if list_all (\<lambda>l. in_range colors (l - 1)) [a, b, c, d, e, f, g, h, i]
        then None else Some IndexError)
   \<and> map fill (tl (canvas (snd (create_icon_on bg colors [[a, b, c], [d, e, f], [g, h, i]] sz w))))
     = map (\<lambda>l. colors ! nat ((l - 1) mod int (length colors)))
         (takeWhile (\<lambda>l. in_range colors (l - 1)) [a, b, c, d, e, f, g, h, i])
   \<and> fst (draw_grid_icon_on colors [[a, b, c], [d, e, f], [g, h, i]] x y cell_size gap w)
     = (if list_all (in_range colors) [a, b, c, d, e, f, g, h, i]
        then None else Some IndexError)
   \<and> map fill (added w (draw_grid_icon_on colors [[a, b, c], [d, e, f], [g, h, i]] x y cell_size gap w))
     = map (\<lambda>l. colors ! nat (l mod int (length colors)))
         (takeWhile (in_range colors) [a, b, c, d, e, f, g, h, i])"
proof -
  have icon: "fst (create_icon_on bg colors [[a, b, c], [d, e, f], [g, h, i]] sz w)
     = (if list_all (\<lambda>l. in_range colors (l - 1)) [a, b, c, d, e, f, g, h, i]
        then None else Some IndexError)
   \<and> map fill (tl (canvas (snd (create_icon_on bg colors [[a, b, c], [d, e, f], [g, h, i]] sz w))))
     = map (\<lambda>l. colors ! nat ((l - 1) mod int (length colors)))
         (takeWhile (\<lambda>l. in_range colors (l - 1)) [a, b, c, d, e, f, g, h, i])"
    apply (simp add: create_icon_on_def py_range_3 py_index_3 truediv_def Let_def)
    apply (simp add: py_index_eq [of colors] py_index_3 rounded_rectangle_def Let_def truediv_def)
    done
  have logo: "fst (draw_grid_icon_on colors [[a, b, c], [d, e, f], [g, h, i]] x y cell_size gap w)
     = (if list_all (in_range colors) [a, b, c, d, e, f, g, h, i]
        then None else Some IndexError)
   \<and> map fill (added w (draw_grid_icon_on colors [[a, b, c], [d, e, f], [g, h, i]] x y cell_size gap w))
     = map (\<lambda>l. colors ! nat (l mod int (length colors)))
         (takeWhile (in_range colors) [a, b, c, d, e, f, g, h, i])"
    apply (simp add: draw_grid_icon_on_def py_range_3 py_index_3 Let_def added_def)
    apply (simp add: py_index_eq [of colors] py_index_3 rounded_rectangle_def Let_def)
    done
  from icon logo show ?thesis by blast
qed

text \<open>
  C3 as stated fails for level 0 under the lookup \<open>GRID_COLORS[level - 1]\<close>: the index
  -1 is outside \<open>0 \<dots> 3\<close>, yet nothing is raised. The cell is filled with the last entry of
  the palette and all nine cells are drawn.
\<close>

theorem level_zero_counterexample:
  "\<not> (0 \<le> (0::int) - 1 \<and> (0::int) - 1 < int (length GRID_COLORS))
   \<and> fst (create_icon_on BACKGROUND GRID_COLORS [[0, 2, 3], [2, 3, 4], [3, 4, 4]] 1024 start) = None
   \<and> map fill (tl (canvas (snd (create_icon_on BACKGROUND GRID_COLORS
                                   [[0, 2, 3], [2, 3, 4], [3, 4, 4]] 1024 start))))
       = [GREEN_BRIGHT, GREEN_MED, GREEN_LIGHT, GREEN_MED, GREEN_LIGHT, GREEN_BRIGHT,
          GREEN_LIGHT, GREEN_BRIGHT, GREEN_BRIGHT]"
  by (simp add: create_icon_on_def GRID_COLORS_value py_range_3 py_index_def truediv_def Let_def
      rounded_rectangle_def)

section \<open>The order of the palettes and the fallback of the fonts\<close>

lemmas palette_values =
  mini_levels_def icon_levels_def contribution_levels_def GRID_COLORS_value
  legend_def legend_levels_def legend_labels_def activity_label_def
  BACKGROUND_def CARD_BG_def GREEN_DARK_def GREEN_MED_def GREEN_LIGHT_def GREEN_BRIGHT_def

text \<open>
  C4, as the code has it. In every palette of a grid routine the last entry is
  \<open>GREEN_BRIGHT\<close>, the shade that the legend labels "Max", and the entries are in strictly
  increasing brightness, so the first is the darkest and the last the brightest. The first
  entry is the empty shade \<open>CARD_BG\<close> (labelled "None") only in \<open>draw_mini_grid\<close>; in
  \<open>draw_grid_icon\<close>, \<open>draw_contribution_grid\<close> and \<open>GRID_COLORS\<close> it is \<open>GREEN_DARK\<close>, the
  lowest level of activity (labelled "Light").
\<close>

theorem palette_order:
  "mini_levels ! 0 = CARD_BG \<and> activity_label (mini_levels ! 0) = Some ''None''
   \<and> last mini_levels = GREEN_BRIGHT \<and> sorted_wrt (<) (map luma mini_levels)
   \<and> icon_levels ! 0 = GREEN_DARK \<and> activity_label (icon_levels ! 0) = Some ''Light''
   \<and> last icon_levels = GREEN_BRIGHT \<and> sorted_wrt (<) (map luma icon_levels)
   \<and> contribution_levels ! 0 = GREEN_DARK
   \<and> activity_label (contribution_levels ! 0) = Some ''Light''
   \<and> last contribution_levels = GREEN_BRIGHT \<and> sorted_wrt (<) (map luma contribution_levels)
   \<and> GRID_COLORS ! 0 = GREEN_DARK \<and> activity_label (GRID_COLORS ! 0) = Some ''Light''
   \<and> last GRID_COLORS = GREEN_BRIGHT \<and> sorted_wrt (<) (map luma GRID_COLORS)
   \<and> activity_label GREEN_BRIGHT = Some ''Max''"
  by (simp add: palette_values)

text \<open>
  C4 as stated fails on the palette of \<open>draw_grid_icon\<close>: its entry at index 0 is neither
  the image background nor the empty shade of the legend, but the shade labelled "Light".
\<close>

theorem palette_index_zero_counterexample:
  "icon_levels ! 0 \<noteq> BACKGROUND \<and> icon_levels ! 0 \<noteq> CARD_BG
   \<and> activity_label (icon_levels ! 0) = Some ''Light''
   \<and> activity_label CARD_BG = Some ''None''"
  by (simp add: palette_values)

lemma font_chain_returns: "\<exists>f. fst (font_chain E paths size' tried) = Inr f"
proof (induction paths arbitrary: tried)
  case Nil
  then show ?case by simp
next
  case (Cons p ps)
  show ?case
  proof (cases "truetype E p size'")
    case (Inl e)
    with Cons.IH [of "tried @ [p]"] show ?thesis by simp
  next
    case (Inr f)
    then show ?thesis by simp
  qed
qed

lemma get_font_screenshots_chain:
  "get_font_screenshots E size' bold tried = font_chain E [SFNS, Helvetica] size' tried"
  by (simp add: get_font_screenshots_def truetype_call_def split: sum.splits)

lemma get_font_banners_chain:
  "get_font_banners E size' tried = font_chain E [Helvetica] size' tried"
  by (simp add: get_font_banners_def truetype_call_def split: sum.splits)

text \<open>
  C5, as the code has it. \<open>get_font\<close> of generate_screenshots.py follows a chain of three
  steps: the file \<open>SFNS.ttf\<close>, then the file \<open>Helvetica.ttc\<close>, then the default font.
  \<open>get_font\<close> of generate_banners.py and of the two logo scripts follows a chain of two
  steps: the file \<open>Helvetica.ttc\<close>, then the default font. For every size each returns a
  font and raises nothing.
\<close>

theorem font_fallback:
  "get_font_screenshots E size' bold tried = font_chain E [SFNS, Helvetica] size' tried
   \<and> get_font_banners E size' tried = font_chain E [Helvetica] size' tried
   \<and> (\<exists>f. fst (get_font_screenshots E size' bold tried) = Inr f)
   \<and> (\<exists>f. fst (get_font_banners E size' tried) = Inr f)
   \<and> (truetype E SFNS size' = Inr f1 \<longrightarrow>
        get_font_screenshots E size' bold tried = (Inr f1, tried @ [SFNS]))
   \<and> (truetype E SFNS size' = Inl e1 \<and> truetype E Helvetica size' = Inr f2 \<longrightarrow>
        get_font_screenshots E size' bold tried = (Inr f2, tried @ [SFNS, Helvetica]))
   \<and> (truetype E SFNS size' = Inl e1 \<and> truetype E Helvetica size' = Inl e2 \<longrightarrow>
        get_font_screenshots E size' bold tried = (Inr (load_default E), tried @ [SFNS, Helvetica]))
   \<and> (truetype E Helvetica size' = Inr f2 \<longrightarrow>
        get_font_banners E size' tried = (Inr f2, tried @ [Helvetica]))
   \<and> (truetype E Helvetica size' = Inl e2 \<longrightarrow>
        get_font_banners E size' tried = (Inr (load_default E), tried @ [Helvetica]))"
proof -
  have a: "\<exists>f. fst (get_font_screenshots E size' bold tried) = Inr f"
    unfolding get_font_screenshots_chain by (rule font_chain_returns)
  have b: "\<exists>f. fst (get_font_banners E size' tried) = Inr f"
    unfolding get_font_banners_chain by (rule font_chain_returns)
  have c: "get_font_screenshots E size' bold tried = (Inr f1, tried @ [SFNS])"
    if "truetype E SFNS size' = Inr f1"
    using that by (simp add: get_font_screenshots_chain)
  have d: "get_font_screenshots E size' bold tried = (Inr f2, tried @ [SFNS, Helvetica])"
    if "truetype E SFNS size' = Inl e1" "truetype E Helvetica size' = Inr f2"
    using that by (simp add: get_font_screenshots_chain)
  have e: "get_font_screenshots E size' bold tried = (Inr (load_default E), tried @ [SFNS, Helvetica])"
    if "truetype E SFNS size' = Inl e1" "truetype E Helvetica size' = Inl e2"
    using that by (simp add: get_font_screenshots_chain)
  have f: "get_font_banners E size' tried = (Inr f2, tried @ [Helvetica])"
    if "truetype E Helvetica size' = Inr f2"
    using that by (simp add: get_font_banners_chain)
  have g: "get_font_banners E size' tried = (Inr (load_default E), tried @ [Helvetica])"
    if "truetype E Helvetica size' = Inl e2"
    using that by (simp add: get_font_banners_chain)
  from a b c d e f g get_font_screenshots_chain [of E size' bold tried]
    get_font_banners_chain [of E size' tried]
  show ?thesis by blast
qed

theorem font_fallback_witness:
  "truetype all_fonts SFNS (PyInt 72) = Inr SFNS
   \<and> get_font_screenshots all_fonts (PyInt 72) True [] = (Inr SFNS, [SFNS])
   \<and> truetype only_helvetica SFNS (PyInt 72) = Inl OSError
   \<and> truetype only_helvetica Helvetica (PyInt 72) = Inr ''Helvetica''
   \<and> get_font_screenshots only_helvetica (PyInt 72) True [] = (Inr ''Helvetica'', [SFNS, Helvetica])
   \<and> get_font_banners only_helvetica (PyInt 72) [] = (Inr ''Helvetica'', [Helvetica])
   \<and> truetype no_fonts SFNS (PyInt 72) = Inl OSError
   \<and> truetype no_fonts Helvetica (PyInt 72) = Inl OSError
   \<and> get_font_screenshots no_fonts (PyInt 72) True [] = (Inr ''default'', [SFNS, Helvetica])
   \<and> get_font_banners no_fonts (PyInt 72) [] = (Inr ''default'', [Helvetica])"
  using font_fallback [of all_fonts "PyInt 72" True "[]" SFNS OSError SFNS OSError]
    font_fallback [of only_helvetica "PyInt 72" True "[]" "''x''" OSError "''Helvetica''" OSError]
    font_fallback [of no_fonts "PyInt 72" True "[]" "''x''" OSError "''x''" OSError]
  by (simp add: all_fonts_def only_helvetica_def no_fonts_def SFNS_def Helvetica_def)

text \<open>
  C5 as stated fails on \<open>get_font\<close> of generate_banners.py: when no font file loads it has
  tried one file before it returns the default font, where \<open>get_font\<close> of
  generate_screenshots.py has tried two.
\<close>

theorem two_step_font_counterexample:
  "get_font_banners no_fonts (PyInt 72) [] = (Inr ''default'', [Helvetica])
   \<and> length (snd (get_font_banners no_fonts (PyInt 72) [])) = 1
   \<and> length (snd (get_font_screenshots no_fonts (PyInt 72) False [])) = 2"
  by (simp add: get_font_banners_def get_font_screenshots_def truetype_call_def no_fonts_def)

end
